theory Spec2Isabelle
  imports Complex_Main "HOL-Library.Multiset"
begin

section \<open>Values, errors and replies\<close>

text \<open>
  A handler returns \<open>([]byte, error)\<close>. An error return is \<open>Inl (Err msg)\<close>; a run-time
  panic of Go (index or slice bounds out of range) is \<open>Inl Panic\<close>; a reply is \<open>Inr\<close> of
  the reply bytes and the keyspace after the command.
\<close>

datatype error = Err string | Panic

text \<open>
  A \<open>float64\<close>, as far as the handlers look at it: they compare scores and pass them on,
  so a finite double is the real number it denotes (both zeros are that one number, which
  is how Go compares them).
\<close>

datatype float64 = NaN | NegInf | Fin real | PosInf

text \<open>What \<open>AdaptType\<close> hands back in an \<open>interface{}\<close>: an integer, a float or the string itself.\<close>

datatype scalar = IntV int | FloatV float64 | StrV string

text \<open>\<open>sorted_set.MemberParam\<close>: one record of a sorted set.\<close>

record MemberParam =
  Value :: string
  Score :: float64

text \<open>
  The value stored at a key. \<open>NilVal\<close> is what a key holds between \<open>CreateKeyAndLock\<close> and
  the first \<open>SetValue\<close>. A sorted set is kept as a list of its records.
\<close>

datatype val =
    NilVal
  | StringVal string
  | ListVal "scalar list"
  | HashVal "string \<rightharpoonup> scalar"
  | ZSetVal "MemberParam list"

type_synonym store = "string \<rightharpoonup> val"

type_synonym reply = "string \<times> store"

definition CRLF :: string where
  "CRLF = [CHR 0x0D, CHR 0x0A]"

definition LF :: string where
  "LF = [CHR 0x0A]"

definition OK :: string where
  "OK = ''+OK'' @ CRLF @ LF"

definition replyOf :: "error + reply \<Rightarrow> string option" where
  "replyOf r = (case r of Inl e \<Rightarrow> None | Inr (bytes, st) \<Rightarrow> Some bytes)"

definition storeOf :: "error + reply \<Rightarrow> store option" where
  "storeOf r = (case r of Inl e \<Rightarrow> None | Inr (bytes, st) \<Rightarrow> Some st)"

subsection \<open>The keyspace the handlers call\<close>

text \<open>
  Modelled from the spec: the \<open>Server\<close> implementation (\<open>KeyExists\<close>, \<open>GetValue\<close>,
  \<open>SetValue\<close>, \<open>CreateKeyAndLock\<close>) is not among the sources. The keyspace is the map of
  key to entry; \<open>exists\<close> tests membership, \<open>get\<close> reads the entry, \<open>set\<close> replaces the value,
  \<open>create_and_write_lock\<close> inserts a new entry with a sentinel empty value. One command
  runs at a time here, so taking and releasing a key's lock always succeeds and changes
  nothing.
\<close>

definition KeyExists :: "store \<Rightarrow> string \<Rightarrow> bool" where
  "KeyExists st key = (st key \<noteq> None)"

definition GetValue :: "store \<Rightarrow> string \<Rightarrow> val option" where
  "GetValue st key = st key"

definition SetValue :: "store \<Rightarrow> string \<Rightarrow> val \<Rightarrow> store" where
  "SetValue st key v = st(key \<mapsto> v)"

definition CreateKeyAndLock :: "store \<Rightarrow> string \<Rightarrow> store" where
  "CreateKeyAndLock st key = st(key \<mapsto> NilVal)"

subsection \<open>Library functions of Go\<close>

text \<open>\<open>strconv.Itoa\<close> and the verb \<open>%d\<close>: the decimal digits, with a minus sign when negative.\<close>

definition digitChar :: "nat \<Rightarrow> char" where
  "digitChar d = char_of (48 + d)"

fun itoaNat :: "nat \<Rightarrow> string" where
  "itoaNat n = (if n < 10 then [digitChar n] else itoaNat (n div 10) @ [digitChar (n mod 10)])"

declare itoaNat.simps [simp del]

definition itoa :: "int \<Rightarrow> string" where
  "itoa i = (if i < 0 then CHR ''-'' # itoaNat (nat (- i)) else itoaNat (nat i))"

text \<open>Arithmetic on \<open>int\<close> and \<open>int64\<close> wraps around at 64 bits.\<close>

definition wrap64 :: "int \<Rightarrow> int" where
  "wrap64 x = (x + 2 ^ 63) mod 2 ^ 64 - 2 ^ 63"

text \<open>
  \<open>strings.ToLower\<close> and \<open>strings.ToUpper\<close> on the ASCII letters. A byte from 0x80 on is
  left as it is: command words and option words are ASCII.
\<close>

definition lowerChar :: "char \<Rightarrow> char" where
  "lowerChar c = (let n = (of_char c :: nat) in if 65 \<le> n \<and> n \<le> 90 then char_of (n + 32) else c)"

definition upperChar :: "char \<Rightarrow> char" where
  "upperChar c = (let n = (of_char c :: nat) in if 97 \<le> n \<and> n \<le> 122 then char_of (n - 32) else c)"

definition ToLower :: "string \<Rightarrow> string" where
  "ToLower s = map lowerChar s"

definition ToUpper :: "string \<Rightarrow> string" where
  "ToUpper s = map upperChar s"

definition EqualFold :: "string \<Rightarrow> string \<Rightarrow> bool" where
  "EqualFold s t = (ToLower s = ToLower t)"

subsection \<open>Functions of the repository and of Go that the handlers import\<close>

text \<open>
  The handlers call helpers whose code is outside the sources at hand
  (\<open>utils.AdaptType\<close> / \<open>internal.AdaptType\<close>, \<open>internal.AbsInt\<close>, the constant
  \<open>constants.WrongArgsResponse\<close>) and the verb \<open>%v\<close> of Go's library on a float. Each
  handler takes them in one record, so every theorem about a handler holds for whatever
  these functions compute.
\<close>

record externs =
  AdaptType :: "string \<Rightarrow> scalar"
  fmtFloat :: "float64 \<Rightarrow> string"
  AbsInt :: "int \<Rightarrow> int"
  WrongArgsResponse :: string

text \<open>The verb \<open>%v\<close> on a list element.\<close>

definition fmtV :: "externs \<Rightarrow> scalar \<Rightarrow> string" where
  "fmtV ex x = (case x of IntV i \<Rightarrow> itoa i | FloatV f \<Rightarrow> fmtFloat ex f | StrV s \<Rightarrow> s)"

text \<open>
  The verb \<open>%s\<close> on a list element: a string prints as it is, any other operand prints as
  the bad-verb form \<open>%!s(type=value)\<close>.
\<close>

definition fmtS :: "externs \<Rightarrow> scalar \<Rightarrow> string" where
  "fmtS ex x = (case x of
       IntV i \<Rightarrow> ''%!s(int64='' @ itoa i @ '')''
     | FloatV f \<Rightarrow> ''%!s(float64='' @ fmtFloat ex f @ '')''
     | StrV s \<Rightarrow> s)"

text \<open>
  Modelled from the spec: \<open>AdaptType\<close> is not among the sources; it is the scalar type
  inference from raw argument tokens. This instance, used to run the handlers on concrete
  commands, infers an integer from an optionally signed run of decimal digits and keeps
  every other token as a string; no command run below carries a token with a fraction or
  an exponent. Nor does any command run below print a float, and the instance prints one
  as a fixed word; \<open>AbsInt\<close> is the absolute value.
\<close>

definition isDigit :: "char \<Rightarrow> bool" where
  "isDigit c = (48 \<le> (of_char c :: nat) \<and> (of_char c :: nat) \<le> 57)"

definition digitsVal :: "string \<Rightarrow> nat" where
  "digitsVal s = foldl (\<lambda>a c. 10 * a + (of_char c - 48)) 0 s"

definition adaptToken :: "string \<Rightarrow> scalar" where
  "adaptToken s = (case s of
       [] \<Rightarrow> StrV s
     | c # r \<Rightarrow>
         if c = CHR ''-'' \<and> r \<noteq> [] \<and> list_all isDigit r then IntV (- int (digitsVal r))
         else if c = CHR ''+'' \<and> r \<noteq> [] \<and> list_all isDigit r then IntV (int (digitsVal r))
         else if list_all isDigit s then IntV (int (digitsVal s))
         else StrV s)"

definition ex0 :: externs where
  "ex0 = \<lparr> AdaptType = adaptToken, fmtFloat = (\<lambda>f. ''float''),
           AbsInt = (\<lambda>n. if n < 0 then wrap64 (- n) else n),
           WrongArgsResponse = ''wrong number of arguments'' \<rparr>"

section \<open>List commands (the list plugin)\<close>

text \<open>\<open>handleLIndex\<close>: the index is an \<open>int64\<close>; any index outside \<open>0 \<le> index < len\<close> is refused.\<close>

definition handleLIndex :: "externs \<Rightarrow> string list \<Rightarrow> store \<Rightarrow> error + reply" where
  "handleLIndex ex cmd st =
     (if length cmd \<noteq> 3 then Inl (Err ''wrong number of args for LINDEX command'')
      else case AdaptType ex (cmd ! 2) of
          IntV index \<Rightarrow>
            if \<not> KeyExists st (cmd ! 1) then Inl (Err ''LINDEX command on non-list item'')
            else (case GetValue st (cmd ! 1) of
                Some (ListVal list) \<Rightarrow>
                  if \<not> (index \<ge> 0 \<and> index < int (length list))
                  then Inl (Err ''index must be within list range'')
                  else Inr (''+'' @ fmtS ex (list ! nat index) @ CRLF @ LF, st)
              | _ \<Rightarrow> Inl (Err ''LINDEX command on non-list item''))
        | _ \<Rightarrow> Inl (Err ''index must be an integer''))"

text \<open>
  The second loop of \<open>handleLRange\<close>: \<open>for i != j\<close>, reading \<open>list[i]\<close> and stepping \<open>i\<close> up when
  \<open>start < end\<close> and down otherwise. Reading outside the list panics, which also ends the
  loop.
\<close>

function lrangeLoop :: "scalar list \<Rightarrow> bool \<Rightarrow> int \<Rightarrow> int \<Rightarrow> error + scalar list" where
  "lrangeLoop list up i j =
     (if i = j then Inr []
      else if i < 0 \<or> int (length list) \<le> i then Inl Panic
      else case lrangeLoop list up (if up then i + 1 else i - 1) j of
          Inl e \<Rightarrow> Inl e
        | Inr r \<Rightarrow> Inr (list ! nat i # r))"
  by pat_completeness auto
termination
  by (relation "measure (\<lambda>(list, up, i, j). if up then nat (int (length list) - i) else nat (i + 1))") auto

declare lrangeLoop.simps [simp del]

text \<open>One element of the array reply of \<open>handleLRange\<close>: a bulk string of its \<open>%v\<close> form.\<close>

definition bulk :: "string \<Rightarrow> string" where
  "bulk str = ''$'' @ itoa (int (length str)) @ CRLF @ str @ CRLF"

definition handleLRange :: "externs \<Rightarrow> string list \<Rightarrow> store \<Rightarrow> error + reply" where
  "handleLRange ex cmd st =
     (if length cmd \<noteq> 4 then Inl (Err ''wrong number of arguments for LRANGE command'')
      else case (AdaptType ex (cmd ! 2), AdaptType ex (cmd ! 3)) of
          (IntV start, IntV end) \<Rightarrow>
            if \<not> KeyExists st (cmd ! 1) then Inl (Err ''LRANGE command on non-list item'')
            else (case GetValue st (cmd ! 1) of
                Some (ListVal list) \<Rightarrow>
                  if \<not> (start \<ge> 0 \<and> start < int (length list))
                  then Inl (Err ''start index not within list range'')
                  else if \<not> ((end \<ge> 0 \<and> end < int (length list)) \<or> end = - 1)
                  then Inl (Err ''end index must be within list range or -1'')
                  else if end = - 1
                  then Inr (''*'' @ itoa (int (length list) - start) @ CRLF
                            @ concat (map (\<lambda>e. bulk (fmtV ex e)) (drop (nat start) list)) @ LF, st)
                  else if start = end then Inl (Err ''start and end indices cannot be equal'')
                  else (case lrangeLoop list (start < end) start (if start > end then end - 1 else end + 1) of
                      Inl e \<Rightarrow> Inl e
                    | Inr elems \<Rightarrow>
                        Inr (''*'' @ itoa (\<bar>start - end\<bar> + 1) @ CRLF
                             @ concat (map (\<lambda>e. bulk (fmtV ex e)) elems) @ LF, st))
              | _ \<Rightarrow> Inl (Err ''type cannot be returned with LRANGE command''))
        | _ \<Rightarrow> Inl (Err ''both start and end indices must be integers''))"

text \<open>
  The scan of \<open>handleLRem\<close>: walk the list, stop once the counter is zero, and overwrite
  each element whose \<open>%v\<close> form equals the value by \<open>nil\<close>, counting down. The counter is
  \<open>math.Abs(float64(count))\<close>; it is a natural number here, which is the same countdown on
  any list of fewer than \<open>2^53\<close> elements. The scan from the tail is the same walk over the
  indices in descending order.
\<close>

fun lremScan :: "externs \<Rightarrow> string \<Rightarrow> nat \<Rightarrow> scalar option list \<Rightarrow> scalar option list" where
  "lremScan ex v n [] = []"
| "lremScan ex v n (x # xs) =
     (if n = 0 then x # xs
      else if (case x of None \<Rightarrow> ''<nil>'' | Some e \<Rightarrow> fmtV ex e) = v
      then None # lremScan ex v (n - 1) xs
      else x # lremScan ex v n xs)"

text \<open>\<open>utils.Filter\<close> with the predicate \<open>elem != nil\<close>.\<close>

definition filterNonNil :: "scalar option list \<Rightarrow> scalar list" where
  "filterNonNil xs = map the (filter (\<lambda>e. e \<noteq> None) xs)"

definition handleLRem :: "externs \<Rightarrow> string list \<Rightarrow> store \<Rightarrow> error + reply" where
  "handleLRem ex cmd st =
     (if length cmd \<noteq> 4 then Inl (Err ''wrong number of arguments for LREM command'')
      else let v = cmd ! 3 in
        case AdaptType ex (cmd ! 2) of
          IntV cnt \<Rightarrow>
            let absoluteCount = nat \<bar>cnt\<bar> in
            if \<not> KeyExists st (cmd ! 1) then Inl (Err ''LREM command on non-list item'')
            else (case GetValue st (cmd ! 1) of
                Some (ListVal list) \<Rightarrow>
                  let marked =
                        (if cnt > 0 then lremScan ex v absoluteCount (map Some list)
                         else if cnt < 0 then rev (lremScan ex v absoluteCount (rev (map Some list)))
                         else map Some list)
                  in Inr (OK, SetValue st (cmd ! 1) (ListVal (filterNonNil marked)))
              | _ \<Rightarrow> Inl (Err ''LREM command on non-list item''))
        | _ \<Rightarrow> Inl (Err ''count must be an integer''))"

text \<open>
  \<open>handleRPush\<close> serves RPUSH and RPUSHX. The error message reads \<open>cmd[0]\<close>, which panics on
  an empty command.
\<close>

definition handleRPush :: "externs \<Rightarrow> string list \<Rightarrow> store \<Rightarrow> error + reply" where
  "handleRPush ex cmd st =
     (if length cmd < 3 then
        (if cmd = [] then Inl Panic
         else Inl (Err (''wrong number of arguments for '' @ ToUpper (cmd ! 0) @ '' command'')))
      else let newElems = map (AdaptType ex) (drop 2 cmd) in
        if \<not> KeyExists st (cmd ! 1) \<and> ToLower (cmd ! 0) = ''rpushx''
        then Inl (Err (cmd ! 0 @ '' command on non-list item''))
        else let st1 = (if \<not> KeyExists st (cmd ! 1)
                        then SetValue (CreateKeyAndLock st (cmd ! 1)) (cmd ! 1) (ListVal [])
                        else st)
          in case GetValue st1 (cmd ! 1) of
              Some (ListVal l) \<Rightarrow> Inr (OK, SetValue st1 (cmd ! 1) (ListVal (l @ newElems)))
            | _ \<Rightarrow> Inl (Err ''RPUSH command on non-list item''))"

text \<open>
  \<open>handlePop\<close> serves LPOP and RPOP. \<open>list[1:]\<close> and \<open>list[:len(list)-1]\<close> panic on the empty
  list.
\<close>

definition handlePop :: "externs \<Rightarrow> string list \<Rightarrow> store \<Rightarrow> error + reply" where
  "handlePop ex cmd st =
     (if length cmd \<noteq> 2 then
        (if cmd = [] then Inl Panic
         else Inl (Err (''wrong number of args for '' @ ToUpper (cmd ! 0) @ '' command'')))
      else if \<not> KeyExists st (cmd ! 1)
      then Inl (Err (ToUpper (cmd ! 0) @ '' command on non-list item''))
      else case GetValue st (cmd ! 1) of
          Some (ListVal list) \<Rightarrow>
            if list = [] then Inl Panic
            else if ToLower (cmd ! 0) = ''rpop''
            then Inr (''+'' @ fmtV ex (last list) @ CRLF @ LF, SetValue st (cmd ! 1) (ListVal (butlast list)))
            else Inr (''+'' @ fmtV ex (hd list) @ CRLF @ LF, SetValue st (cmd ! 1) (ListVal (tl list)))
        | _ \<Rightarrow> Inl (Err (ToUpper (cmd ! 0) @ '' command on non-list item'')))"

text \<open>
  What the description of \<open>LREM\<close> says of a scan, written down from its words: walking the list
  from the head, remove the elements that match until \<open>n\<close> of them are removed.
\<close>

fun removeFirstN :: "nat \<Rightarrow> ('a \<Rightarrow> bool) \<Rightarrow> 'a list \<Rightarrow> 'a list" where
  "removeFirstN n p [] = []"
| "removeFirstN n p (x # xs) =
     (if n = 0 then x # xs
      else if p x then removeFirstN (n - 1) p xs
      else x # removeFirstN n p xs)"

section \<open>String commands\<close>

text \<open>
  The slice expression \<open>value[lo:hi]\<close> on a string: it panics unless
  \<open>0 \<le> lo \<le> hi \<le> len(value)\<close>.
\<close>

definition sliceStr :: "string \<Rightarrow> int \<Rightarrow> int \<Rightarrow> error + string" where
  "sliceStr v lo hi =
     (if 0 \<le> lo \<and> lo \<le> hi \<and> hi \<le> int (length v)
      then Inr (take (nat (hi - lo)) (drop (nat lo) v))
      else Inl Panic)"

text \<open>
  The conversion \<open>string(b)\<close> of a byte: the UTF-8 form of the code point \<open>b\<close>, which is the
  byte itself below 0x80 and two bytes from 0x80 on.
\<close>

definition runeString :: "char \<Rightarrow> string" where
  "runeString b =
     (let n = (of_char b :: nat)
      in if n < 128 then [b] else [char_of (192 + n div 64), char_of (128 + n mod 64)])"

text \<open>The loop \<open>for i := len(str) - 1; i >= 0; i-- { res = res + string(str[i]) }\<close>.\<close>

definition reverseBytes :: "string \<Rightarrow> string" where
  "reverseBytes str = concat (map runeString (rev str))"

subsection \<open>The string plugin (\<open>plugins/string/command.go\<close>)\<close>

definition plugin_handleSubStr :: "externs \<Rightarrow> string list \<Rightarrow> store \<Rightarrow> error + reply" where
  "plugin_handleSubStr ex cmd st =
     (if cmd = [] then Inl Panic
      else if length (tl cmd) \<noteq> 3 then Inl (Err ''wrong number of args for SUBSTR command'')
      else let key = cmd ! 1 in
        case (AdaptType ex (cmd ! 2), AdaptType ex (cmd ! 3)) of
          (IntV start, IntV end) \<Rightarrow>
            if \<not> KeyExists st key then Inl (Err (''key '' @ key @ '' does not exist''))
            else (case GetValue st key of
                Some (StringVal v) \<Rightarrow>
                  let len = int (length v);
                      end = (if end \<ge> 0 then wrap64 (end + 1) else end);
                      start = (if start < 0 then wrap64 (len + start) else start);
                      end = (if end < 0 then wrap64 (len + end) else end);
                      end = (if end > len then len else end);
                      reversed = (start > end);
                      lo = (if reversed then end else start);
                      hi = (if reversed then start else end)
                  in (case sliceStr v lo hi of
                      Inl e \<Rightarrow> Inl e
                    | Inr str \<Rightarrow>
                        let str = (if reversed then reverseBytes str else str)
                        in Inr (''$'' @ itoa (int (length str)) @ CRLF @ str @ CRLF @ LF, st))
              | _ \<Rightarrow> Inl (Err (''value at key '' @ key @ '' is not a string'')))
        | _ \<Rightarrow> Inl (Err ''start and end indices must be integers''))"

text \<open>\<open>HandleCommandWithConnection\<close> of the plugin refuses every command.\<close>

definition HandleCommandWithConnection :: "string list \<Rightarrow> store \<Rightarrow> error + reply" where
  "HandleCommandWithConnection cmd st = Inl (Err ''not implemented'')"

text \<open>
  \<open>HandleCommand\<close> of the plugin. The handlers of SETRANGE and STRLEN are not the subject
  of any property below; the dispatcher takes them as \<open>hSetRange\<close> and \<open>hStrLen\<close>.
\<close>

definition plugin_HandleCommand ::
  "(string list \<Rightarrow> store \<Rightarrow> error + reply) \<Rightarrow> (string list \<Rightarrow> store \<Rightarrow> error + reply)
     \<Rightarrow> externs \<Rightarrow> string list \<Rightarrow> store \<Rightarrow> error + reply" where
  "plugin_HandleCommand hSetRange hStrLen ex cmd st =
     (if cmd = [] then Inl Panic
      else let c = ToLower (cmd ! 0) in
        if c = ''setrange'' then hSetRange cmd st
        else if c = ''strlen'' then hStrLen cmd st
        else if c = ''substr'' then plugin_handleSubStr ex cmd st
        else if c = ''getrange'' then plugin_handleSubStr ex cmd st
        else Inl (Err ''command unknown''))"

subsection \<open>The string module (package \<open>str\<close>)\<close>

record AccessKeys =
  Channels :: "string list"
  ReadKeys :: "string list"
  WriteKeys :: "string list"

definition setRangeKeyFunc :: "externs \<Rightarrow> string list \<Rightarrow> error + AccessKeys" where
  "setRangeKeyFunc ex cmd =
     (if length cmd \<noteq> 4 then Inl (Err (WrongArgsResponse ex))
      else Inr \<lparr> Channels = [], ReadKeys = [], WriteKeys = take 1 (drop 1 cmd) \<rparr>)"

definition strLenKeyFunc :: "externs \<Rightarrow> string list \<Rightarrow> error + AccessKeys" where
  "strLenKeyFunc ex cmd =
     (if length cmd \<noteq> 2 then Inl (Err (WrongArgsResponse ex))
      else Inr \<lparr> Channels = [], ReadKeys = take 1 (drop 1 cmd), WriteKeys = [] \<rparr>)"

definition subStrKeyFunc :: "externs \<Rightarrow> string list \<Rightarrow> error + AccessKeys" where
  "subStrKeyFunc ex cmd =
     (if length cmd \<noteq> 4 then Inl (Err (WrongArgsResponse ex))
      else Inr \<lparr> Channels = [], ReadKeys = take 1 (drop 1 cmd), WriteKeys = [] \<rparr>)"

text \<open>
  The normalisation of a negative index in \<open>handleSubStr\<close>:
  \<open>if i < 0 { i = len(value) - internal.AbsInt(i) }\<close>.
\<close>

definition normIndex :: "externs \<Rightarrow> int \<Rightarrow> int \<Rightarrow> int" where
  "normIndex ex len i = (if i < 0 then wrap64 (len - AbsInt ex i) else i)"

definition handleSubStr :: "externs \<Rightarrow> string list \<Rightarrow> store \<Rightarrow> error + reply" where
  "handleSubStr ex cmd st =
     (case subStrKeyFunc ex cmd of
        Inl err \<Rightarrow> Inl err
      | Inr keys \<Rightarrow>
          (case ReadKeys keys of
             [] \<Rightarrow> Inl Panic
           | key # rest \<Rightarrow>
               (case (AdaptType ex (cmd ! 2), AdaptType ex (cmd ! 3)) of
                  (IntV start, IntV end) \<Rightarrow>
                    if \<not> KeyExists st key then Inl (Err (''key '' @ key @ '' does not exist''))
                    else (case GetValue st key of
                        Some (StringVal v) \<Rightarrow>
                          let len = int (length v);
                              start = normIndex ex len start;
                              end = normIndex ex len end;
                              end = (if end \<ge> 0 \<and> end \<ge> start then wrap64 (end + 1) else end);
                              end = (if end > len then len else end);
                              reversed = (start > end);
                              lo = (if reversed then end else start);
                              hi = (if reversed then start else end)
                          in (case sliceStr v lo hi of
                              Inl e \<Rightarrow> Inl e
                            | Inr str \<Rightarrow>
                                let str = (if reversed then reverseBytes str else str)
                                in Inr (''$'' @ itoa (int (length str)) @ CRLF @ str @ CRLF, st))
                      | _ \<Rightarrow> Inl (Err (''value at key '' @ key @ '' is not a string'')))
                | _ \<Rightarrow> Inl (Err ''start and end indices must be integers''))))"

text \<open>
  \<open>types.Command\<close>, one entry of the registry. The fields \<open>Module\<close> and \<open>Categories\<close> hold
  constants of the package \<open>constants\<close>, which is not among the sources, and no property
  reads them; they are left out.
\<close>

record Command =
  Command :: string
  Description :: string
  Sync :: bool
  KeyExtractionFunc :: "string list \<Rightarrow> error + AccessKeys"
  HandlerFunc :: "string list \<Rightarrow> store \<Rightarrow> error + reply"

text \<open>
  \<open>Commands\<close> of the string module. As in the plugin, the handlers of SETRANGE and STRLEN
  are \<open>hSetRange\<close> and \<open>hStrLen\<close>.
\<close>

definition Commands ::
  "(string list \<Rightarrow> store \<Rightarrow> error + reply) \<Rightarrow> (string list \<Rightarrow> store \<Rightarrow> error + reply)
     \<Rightarrow> externs \<Rightarrow> Command list" where
  "Commands hSetRange hStrLen ex =
     [ \<lparr> Command = ''setrange'',
         Description = ''(SETRANGE key offset value) '' @ LF
           @ ''Overwrites part of a string value with another by offset. Creates the key if it doesn't exist.'',
         Sync = True,
         KeyExtractionFunc = setRangeKeyFunc ex,
         HandlerFunc = hSetRange \<rparr>,
       \<lparr> Command = ''strlen'',
         Description = ''(STRLEN key) Returns length of the key's value if it's a string.'',
         Sync = False,
         KeyExtractionFunc = strLenKeyFunc ex,
         HandlerFunc = hStrLen \<rparr>,
       \<lparr> Command = ''substr'',
         Description = ''(SUBSTR key start end) Returns a substring from the string value.'',
         Sync = False,
         KeyExtractionFunc = subStrKeyFunc ex,
         HandlerFunc = handleSubStr ex \<rparr>,
       \<lparr> Command = ''getrange'',
         Description = ''(GETRANGE key start end) Returns a substring from the string value.'',
         Sync = False,
         KeyExtractionFunc = subStrKeyFunc ex,
         HandlerFunc = handleSubStr ex \<rparr> ]"

text \<open>
  Modelled from the spec: the dispatcher is not among the sources. It lowercases the command
  word and looks it up in the registry (an unknown word is the error \<open>command unknown\<close>),
  calls the key extractor (its error is returned), and invokes the handler of the entry on
  the command.
\<close>

definition dispatch :: "Command list \<Rightarrow> string list \<Rightarrow> store \<Rightarrow> error + reply" where
  "dispatch registry cmd st =
     (case cmd of
        [] \<Rightarrow> Inl (Err ''command unknown'')
      | w # args \<Rightarrow>
          (case find (\<lambda>c. Command c = ToLower w) registry of
             None \<Rightarrow> Inl (Err ''command unknown'')
           | Some c \<Rightarrow>
               (case KeyExtractionFunc c cmd of
                  Inl err \<Rightarrow> Inl err
                | Inr keys \<Rightarrow> HandlerFunc c cmd st)))"

section \<open>Sorted-set and hash commands\<close>

subsection \<open>Comparing scores\<close>

text \<open>
  The operators \<open><\<close>, \<open><=\<close>, \<open>>=\<close> and \<open>!=\<close> of Go on \<open>float64\<close>: every ordered comparison with
  NaN is false, and NaN differs from everything, itself included.
\<close>

fun f_lt :: "float64 \<Rightarrow> float64 \<Rightarrow> bool" where
  "f_lt NaN y = False"
| "f_lt x NaN = False"
| "f_lt x NegInf = False"
| "f_lt NegInf y = True"
| "f_lt PosInf y = False"
| "f_lt x PosInf = True"
| "f_lt (Fin a) (Fin b) = (a < b)"

definition f_le :: "float64 \<Rightarrow> float64 \<Rightarrow> bool" where
  "f_le x y = (x \<noteq> NaN \<and> y \<noteq> NaN \<and> (x = y \<or> f_lt x y))"

definition f_ge :: "float64 \<Rightarrow> float64 \<Rightarrow> bool" where
  "f_ge x y = f_le y x"

definition f_ne :: "float64 \<Rightarrow> float64 \<Rightarrow> bool" where
  "f_ne x y = (x = NaN \<or> x \<noteq> y)"

text \<open>\<open>cmp.Compare\<close> of Go's library: NaN is below every other float and equal to itself.\<close>

definition cmp_Compare :: "float64 \<Rightarrow> float64 \<Rightarrow> int" where
  "cmp_Compare x y =
     (if x = NaN then (if y = NaN then 0 else - 1)
      else if y = NaN then 1
      else if f_lt x y then - 1
      else if f_lt y x then 1
      else 0)"

subsection \<open>The sorted set\<close>

text \<open>
  Modelled from the spec: the lexicographic comparison of two values, byte by byte, a
  proper prefix being the smaller; the result is -1, 0 or 1.
\<close>

fun lexCompare :: "string \<Rightarrow> string \<Rightarrow> int" where
  "lexCompare [] [] = 0"
| "lexCompare [] (b # bs) = - 1"
| "lexCompare (a # as) [] = 1"
| "lexCompare (a # as) (b # bs) =
     (if (of_char a :: nat) < of_char b then - 1
      else if (of_char b :: nat) < of_char a then 1
      else lexCompare as bs)"

text \<open>
  Modelled from the spec: the order of a sorted set is by score ascending, a tie being
  broken by the value, lexicographically ascending. \<open>memberLess a b\<close> says that \<open>a\<close> stands
  before \<open>b\<close> in that order; \<open>insertMember\<close> puts a record at its place among records that
  are in order, and \<open>sortMembers\<close> puts a list of records in order.
\<close>

definition memberLess :: "MemberParam \<Rightarrow> MemberParam \<Rightarrow> bool" where
  "memberLess a b =
     (f_lt (Score a) (Score b) \<or> (Score a = Score b \<and> lexCompare (Value a) (Value b) < 0))"

fun insertMember :: "MemberParam \<Rightarrow> MemberParam list \<Rightarrow> MemberParam list" where
  "insertMember m [] = [m]"
| "insertMember m (x # xs) = (if memberLess m x then m # x # xs else x # insertMember m xs)"

definition sortMembers :: "MemberParam list \<Rightarrow> MemberParam list" where
  "sortMembers zs = foldr insertMember zs []"

text \<open>
  Modelled from the spec: the package \<open>internal/sorted_set\<close> is not among the sources. A
  sorted set is a collection of records of a value and a score, unique on the value,
  ordered by score ascending with ties broken by the value, lexicographically ascending.
  It is kept here as a list of its records. \<open>GetAll\<close> hands the records out in the order
  of the set; \<open>NewSortedSet\<close> adds the given members one after the other, each at its
  place in the order, a later score replacing an earlier one of the same value; \<open>Get\<close>
  finds the record of a value; \<open>Remove\<close> drops the record of a value and tells whether
  there was one; \<open>Cardinality\<close> counts the records.
\<close>

definition GetAll :: "MemberParam list \<Rightarrow> MemberParam list" where
  "GetAll zs = sortMembers zs"

definition Cardinality :: "MemberParam list \<Rightarrow> int" where
  "Cardinality zs = int (length zs)"

definition Get :: "MemberParam list \<Rightarrow> string \<Rightarrow> MemberParam option" where
  "Get zs v = find (\<lambda>m. Value m = v) zs"

definition Remove :: "MemberParam list \<Rightarrow> string \<Rightarrow> bool \<times> MemberParam list" where
  "Remove zs v = (list_ex (\<lambda>m. Value m = v) zs, filter (\<lambda>m. Value m \<noteq> v) zs)"

definition NewSortedSet :: "MemberParam list \<Rightarrow> MemberParam list" where
  "NewSortedSet members = foldl (\<lambda>zs m. insertMember m (snd (Remove zs (Value m)))) [] members"

subsection \<open>What the sorted-set and hash modules import\<close>

text \<open>
  Besides \<open>AdaptType\<close>, the handlers of these modules call \<open>internal.CompareLex\<close>, the
  method \<open>AddOrUpdate\<close> of the sorted set and their key extractors, all outside the sources
  at hand, and \<open>strconv.ParseFloat\<close>, \<open>strconv.Atoi\<close>, \<open>strconv.FormatFloat\<close>, the verb \<open>%f\<close>
  and \<open>slices.SortFunc\<close> of Go's library. \<open>AddOrUpdate\<close> takes the set, the members and the
  four options and gives back the count and the set after the update.
\<close>

record zexterns = externs +
  CompareLex :: "string \<Rightarrow> string \<Rightarrow> int"
  ParseFloat :: "string \<Rightarrow> error + float64"
  Atoi :: "string \<Rightarrow> error + int"
  FormatFloat :: "float64 \<Rightarrow> string"
  fmtF :: "float64 \<Rightarrow> string"
  SortFunc :: "(MemberParam \<Rightarrow> MemberParam \<Rightarrow> int) \<Rightarrow> MemberParam list \<Rightarrow> MemberParam list"
  AddOrUpdate :: "MemberParam list \<Rightarrow> MemberParam list \<Rightarrow> string option \<Rightarrow> string option
                    \<Rightarrow> string option \<Rightarrow> string option \<Rightarrow> error + (int \<times> MemberParam list)"
  zaddKeyFunc :: "string list \<Rightarrow> error + AccessKeys"
  zlexcountKeyFunc :: "string list \<Rightarrow> error + AccessKeys"
  zrangeKeyCount :: "string list \<Rightarrow> error + AccessKeys"
  zremKeyFunc :: "string list \<Rightarrow> error + AccessKeys"
  zremrangebyscoreKeyFunc :: "string list \<Rightarrow> error + AccessKeys"
  zremrangebylexKeyFunc :: "string list \<Rightarrow> error + AccessKeys"
  hdelKeyFunc :: "string list \<Rightarrow> error + AccessKeys"

subsection \<open>An instance to run the handlers on concrete commands\<close>

text \<open>
  The instance of \<open>CompareLex\<close> is \<open>lexCompare\<close>, the lexicographic comparison by which the
  sorted set above breaks ties.
\<close>

text \<open>
  \<open>slices.SortFunc\<close> on a slice of at most twelve elements is the insertion sort
  \<open>insertionSortCmpFunc\<close> of Go's library: each element in turn moves towards the front
  while it compares below its left neighbour. \<open>insertLeft\<close> works on the sorted prefix in
  reverse, its last element first.
\<close>

fun insertLeft :: "('a \<Rightarrow> 'a \<Rightarrow> int) \<Rightarrow> 'a \<Rightarrow> 'a list \<Rightarrow> 'a list" where
  "insertLeft cmp x [] = [x]"
| "insertLeft cmp x (y # ys) = (if cmp x y < 0 then y # insertLeft cmp x ys else x # y # ys)"

definition insertionSortCmpFunc :: "('a \<Rightarrow> 'a \<Rightarrow> int) \<Rightarrow> 'a list \<Rightarrow> 'a list" where
  "insertionSortCmpFunc cmp xs = rev (foldl (\<lambda>pre x. insertLeft cmp x pre) [] xs)"

text \<open>
  The key extractors of the instance return the second word of the command as the key,
  once the command has the least number of words. The number parsers read what
  \<open>adaptToken\<close> reads, and \<open>ParseFloat\<close> the infinities as well. \<open>AddOrUpdate\<close>, which no
  command run below reaches, refuses, and a float, which no command run below prints, is
  printed as a fixed word.
\<close>

definition keyAt1 :: "nat \<Rightarrow> bool \<Rightarrow> string list \<Rightarrow> error + AccessKeys" where
  "keyAt1 least write cmd =
     (if length cmd < least then Inl (Err ''wrong number of arguments'')
      else Inr \<lparr> Channels = [],
                 ReadKeys = (if write then [] else take 1 (drop 1 cmd)),
                 WriteKeys = (if write then take 1 (drop 1 cmd) else []) \<rparr>)"

definition parseFloatToken :: "string \<Rightarrow> error + float64" where
  "parseFloatToken s =
     (if ToLower s = ''-inf'' then Inr NegInf
      else if ToLower s = ''+inf'' \<or> ToLower s = ''inf'' then Inr PosInf
      else case adaptToken s of
          IntV i \<Rightarrow> Inr (Fin (real_of_int i))
        | _ \<Rightarrow> Inl (Err (''strconv.ParseFloat: parsing '' @ s @ '': invalid syntax'')))"

definition atoiToken :: "string \<Rightarrow> error + int" where
  "atoiToken s =
     (case adaptToken s of
        IntV i \<Rightarrow> Inr i
      | _ \<Rightarrow> Inl (Err (''strconv.Atoi: parsing '' @ s @ '': invalid syntax'')))"

definition zx0 :: zexterns where
  "zx0 = \<lparr> AdaptType = adaptToken, fmtFloat = (\<lambda>f. ''float''),
           AbsInt = (\<lambda>n. if n < 0 then wrap64 (- n) else n),
           WrongArgsResponse = ''wrong number of arguments'',
           CompareLex = lexCompare,
           ParseFloat = parseFloatToken,
           Atoi = atoiToken,
           FormatFloat = (\<lambda>f. ''float''),
           fmtF = (\<lambda>f. ''float''),
           SortFunc = insertionSortCmpFunc,
           AddOrUpdate = (\<lambda>zs members updatePolicy comparison changed incr. Inl (Err ''refused'')),
           zaddKeyFunc = keyAt1 4 True,
           zlexcountKeyFunc = keyAt1 4 False,
           zrangeKeyCount = keyAt1 4 False,
           zremKeyFunc = keyAt1 3 True,
           zremrangebyscoreKeyFunc = keyAt1 4 True,
           zremrangebylexKeyFunc = keyAt1 4 True,
           hdelKeyFunc = keyAt1 3 True \<rparr>"

subsection \<open>ZADD\<close>

text \<open>
  The first loop of \<open>handleZADD\<close> looks for the first word that adapts to a number or is
  one of the infinities; its index is where the score/member pairs start. The loop leaves
  only once the index is not zero, so a match at index zero does not count, and zero is
  the result when nothing matches.
\<close>

definition isScoreWord :: "zexterns \<Rightarrow> string \<Rightarrow> bool" where
  "isScoreWord zx w =
     (case AdaptType zx w of
        StrV s \<Rightarrow> ToLower w = ''-inf'' \<or> ToLower w = ''+inf''
      | FloatV f \<Rightarrow> True
      | IntV i \<Rightarrow> True)"

fun membersStart :: "zexterns \<Rightarrow> string list \<Rightarrow> nat \<Rightarrow> nat" where
  "membersStart zx [] i = 0"
| "membersStart zx (w # ws) i =
     (if isScoreWord zx w \<and> i \<noteq> 0 then i else membersStart zx ws (Suc i))"

text \<open>
  The second loop reads the pairs. A score that adapts to a string other than an infinity
  adds no member and raises no error; an integer score is converted to a float.
\<close>

fun zaddMembers :: "zexterns \<Rightarrow> string list \<Rightarrow> MemberParam list" where
  "zaddMembers zx (score # member # rest) =
     (case AdaptType zx score of
        StrV s \<Rightarrow>
          (if ToLower s = ''-inf'' then [\<lparr> Value = member, Score = NegInf \<rparr>] else [])
          @ (if ToLower s = ''+inf'' then [\<lparr> Value = member, Score = PosInf \<rparr>] else [])
      | FloatV f \<Rightarrow> [\<lparr> Value = member, Score = f \<rparr>]
      | IntV i \<Rightarrow> [\<lparr> Value = member, Score = Fin (real_of_int i) \<rparr>])
     @ zaddMembers zx rest"
| "zaddMembers zx rest = []"

text \<open>
  The third loop reads the options into \<open>updatePolicy\<close>, \<open>comparison\<close>, \<open>changed\<close> and \<open>incr\<close>,
  each \<open>nil\<close> or the option word as given. \<open>n\<close> is the number of members.
\<close>

fun zaddOptions ::
  "string list \<Rightarrow> nat \<Rightarrow> string option \<times> string option \<times> string option \<times> string option
     \<Rightarrow> error + (string option \<times> string option \<times> string option \<times> string option)" where
  "zaddOptions [] n (updatePolicy, comparison, changed, incr) = Inr (updatePolicy, comparison, changed, incr)"
| "zaddOptions (option # rest) n (updatePolicy, comparison, changed, incr) =
     (if ToLower option = ''xx'' \<or> ToLower option = ''nx'' then
        (if EqualFold option ''NX'' \<and> comparison \<noteq> None
         then Inl (Err ''GT/LT flags not allowed if NX flag is provided'')
         else zaddOptions rest n (Some option, comparison, changed, incr))
      else if ToLower option = ''gt'' \<or> ToLower option = ''lt'' then
        (if EqualFold (case updatePolicy of None \<Rightarrow> [] | Some up \<Rightarrow> up) ''NX''
         then Inl (Err ''GT/LT flags not allowed if NX flag is provided'')
         else zaddOptions rest n (updatePolicy, Some option, changed, incr))
      else if EqualFold option ''ch'' then zaddOptions rest n (updatePolicy, comparison, Some option, incr)
      else if EqualFold option ''incr'' then
        (if n > 1
         then Inl (Err ''cannot pass more than one score/member pair when INCR flag is provided'')
         else zaddOptions rest n (updatePolicy, comparison, changed, Some option))
      else Inl (Err (''invalid option '' @ option)))"

text \<open>
  \<open>handleZADD\<close>. The sorted set at an existing key is reached through a pointer, so what
  \<open>AddOrUpdate\<close> leaves is what the key holds afterwards.
\<close>

definition handleZADD :: "zexterns \<Rightarrow> string list \<Rightarrow> store \<Rightarrow> error + reply" where
  "handleZADD zx cmd st =
     (case zaddKeyFunc zx cmd of
        Inl err \<Rightarrow> Inl err
      | Inr keys \<Rightarrow>
          (case WriteKeys keys of
             [] \<Rightarrow> Inl Panic
           | key # others \<Rightarrow>
               let membersStartIndex = membersStart zx cmd 0 in
               if membersStartIndex < 2 \<or> (length cmd - membersStartIndex) mod 2 \<noteq> 0
               then Inl (Err ''score/member pairs must be float/string'')
               else let members = zaddMembers zx (drop membersStartIndex cmd) in
                 case (if membersStartIndex > 2
                       then zaddOptions (take (membersStartIndex - 2) (drop 2 cmd)) (length members)
                              (None, None, None, None)
                       else Inr (None, None, None, None)) of
                   Inl err \<Rightarrow> Inl err
                 | Inr (updatePolicy, comparison, changed, incr) \<Rightarrow>
                     if KeyExists st key then
                       (case GetValue st key of
                          Some (ZSetVal zs) \<Rightarrow>
                            (case AddOrUpdate zx zs members updatePolicy comparison changed incr of
                               Inl err \<Rightarrow> Inl err
                             | Inr (cnt, zs') \<Rightarrow>
                                 if incr \<noteq> None then
                                   (case members of
                                      [] \<Rightarrow> Inl Panic
                                    | m # ms \<Rightarrow>
                                        Inr (''+'' @ fmtF zx (case Get zs' (Value m) of
                                                               None \<Rightarrow> Fin 0
                                                             | Some found \<Rightarrow> Score found) @ CRLF,
                                             st(key \<mapsto> ZSetVal zs')))
                                 else Inr ('':'' @ itoa cnt @ CRLF, st(key \<mapsto> ZSetVal zs')))
                        | _ \<Rightarrow> Inl (Err (''value at '' @ key @ '' is not a sorted set'')))
                     else
                       let zs = NewSortedSet members
                       in Inr ('':'' @ itoa (Cardinality zs) @ CRLF,
                               SetValue (CreateKeyAndLock st key) key (ZSetVal zs))))"

subsection \<open>ZLEXCOUNT\<close>

text \<open>
  The check that precedes a lexicographic count or range:
  \<open>for i := 0; i < bound; i++ { if members[i].Score != members[i+1].Score { return 0 } }\<close>.
  The bound is \<open>len(members) - 2\<close> in \<open>handleZLEXCOUNT\<close> and \<open>len(members) - 1\<close> in
  \<open>handleZREMRANGEBYLEX\<close> and \<open>handleZRANGE\<close>.
\<close>

definition scoresDiffer :: "MemberParam list \<Rightarrow> int \<Rightarrow> bool" where
  "scoresDiffer members bound =
     list_ex (\<lambda>i. f_ne (Score (members ! i)) (Score (members ! Suc i))) [0 ..< nat bound]"

definition inLexRange :: "zexterns \<Rightarrow> string \<Rightarrow> string \<Rightarrow> MemberParam \<Rightarrow> bool" where
  "inLexRange zx minimum maximum m =
     ((CompareLex zx (Value m) minimum = 1 \<or> CompareLex zx (Value m) minimum = 0)
      \<and> (CompareLex zx (Value m) maximum = - 1 \<or> CompareLex zx (Value m) maximum = 0))"

definition handleZLEXCOUNT :: "zexterns \<Rightarrow> string list \<Rightarrow> store \<Rightarrow> error + reply" where
  "handleZLEXCOUNT zx cmd st =
     (case zlexcountKeyFunc zx cmd of
        Inl err \<Rightarrow> Inl err
      | Inr keys \<Rightarrow>
          (case ReadKeys keys of
             [] \<Rightarrow> Inl Panic
           | key # others \<Rightarrow>
               if length cmd < 4 then Inl Panic
               else let minimum = cmd ! 2; maximum = cmd ! 3 in
                 if \<not> KeyExists st key then Inr ('':0'' @ CRLF, st)
                 else (case GetValue st key of
                     Some (ZSetVal zs) \<Rightarrow>
                       let members = GetAll zs in
                       if scoresDiffer members (int (length members) - 2) then Inr ('':0'' @ CRLF, st)
                       else Inr ('':'' @ itoa (int (length (filter (inLexRange zx minimum maximum) members)))
                                 @ CRLF, st)
                   | _ \<Rightarrow> Inl (Err (''value at '' @ key @ '' is not a sorted set'')))))"

subsection \<open>ZRANGE\<close>

text \<open>
  The \<open>LIMIT\<close> option of \<open>handleZRANGE\<close>: the offset and the count follow the first word that
  folds to \<open>limit\<close> among the options \<open>cmd[4:]\<close>. Without it the offset is 0 and the count
  is -1.
\<close>

fun indexOfLimit :: "string list \<Rightarrow> nat" where
  "indexOfLimit [] = 0"
| "indexOfLimit (w # ws) = (if EqualFold w ''limit'' then 0 else Suc (indexOfLimit ws))"

definition zrangeLimit :: "zexterns \<Rightarrow> string list \<Rightarrow> error + (int \<times> int)" where
  "zrangeLimit zx opts =
     (if list_ex (\<lambda>s. EqualFold s ''limit'') opts then
        (let limitIdx = indexOfLimit opts in
         if int limitIdx > int (length opts) - 3
         then Inl (Err ''limit should contain offset and count as integers'')
         else case Atoi zx (opts ! (limitIdx + 1)) of
             Inl err \<Rightarrow> Inl (Err ''limit offset must be integer'')
           | Inr offset \<Rightarrow>
               if offset < 0 then Inl (Err ''limit offset must be >= 0'')
               else (case Atoi zx (opts ! (limitIdx + 2)) of
                   Inl err \<Rightarrow> Inl (Err ''limit count must be integer'')
                 | Inr cnt \<Rightarrow> Inr (offset, cnt)))
      else Inr (0, - 1))"

text \<open>One member of the reply of \<open>handleZRANGE\<close>, and the whole reply.\<close>

definition zrangeMember :: "zexterns \<Rightarrow> bool \<Rightarrow> MemberParam \<Rightarrow> string" where
  "zrangeMember zx withscores m =
     (if withscores
      then CRLF @ ''*2'' @ CRLF @ ''$'' @ itoa (int (length (Value m))) @ CRLF @ Value m @ CRLF
           @ ''+'' @ FormatFloat zx (Score m)
      else CRLF @ ''*1'' @ CRLF @ ''$'' @ itoa (int (length (Value m))) @ CRLF @ Value m)"

definition zrangeReply :: "zexterns \<Rightarrow> bool \<Rightarrow> MemberParam list \<Rightarrow> string" where
  "zrangeReply zx withscores resultMembers =
     ''*'' @ itoa (int (length resultMembers))
     @ concat (map (zrangeMember zx withscores) resultMembers) @ CRLF"

definition handleZRANGE :: "zexterns \<Rightarrow> string list \<Rightarrow> store \<Rightarrow> error + reply" where
  "handleZRANGE zx cmd st =
     (case zrangeKeyCount zx cmd of
        Inl err \<Rightarrow> Inl err
      | Inr keys \<Rightarrow>
          (case ReadKeys keys of
             [] \<Rightarrow> Inl Panic
           | key # others \<Rightarrow>
               if length cmd < 4 then Inl Panic
               else let lexStart = cmd ! 2; lexStop = cmd ! 3;
                        withscores = list_ex (\<lambda>s. EqualFold s ''withscores'') (drop 4 cmd);
                        reverse = list_ex (\<lambda>s. EqualFold s ''rev'') (drop 4 cmd);
                        bylex = list_ex (\<lambda>s. EqualFold s ''bylex'') (drop 4 cmd)
                 in case (if bylex then Inr (NegInf, PosInf)
                          else case ParseFloat zx (cmd ! 2) of
                              Inl err \<Rightarrow> Inl err
                            | Inr scoreStart \<Rightarrow>
                                (case ParseFloat zx (cmd ! 3) of
                                   Inl err \<Rightarrow> Inl err
                                 | Inr scoreStop \<Rightarrow> Inr (scoreStart, scoreStop))) of
                     Inl err \<Rightarrow> Inl err
                   | Inr (scoreStart, scoreStop) \<Rightarrow>
                       (case zrangeLimit zx (drop 4 cmd) of
                          Inl err \<Rightarrow> Inl err
                        | Inr (offset, cnt) \<Rightarrow>
                            if \<not> KeyExists st key then Inr (''*0'' @ CRLF, st)
                            else (case GetValue st key of
                                Some (ZSetVal zs) \<Rightarrow>
                                  if offset > Cardinality zs then Inr (''*0'' @ CRLF, st)
                                  else let cnt = (if cnt < 0 then Cardinality zs - offset else cnt);
                                           members = GetAll zs
                                    in if \<not> bylex then
                                         (let members = SortFunc zx
                                                (\<lambda>a b. if reverse then cmp_Compare (Score b) (Score a)
                                                        else cmp_Compare (Score a) (Score b)) members;
                                              resultMembers = filter
                                                (\<lambda>m. f_ge (Score m) scoreStart \<and> f_le (Score m) scoreStop)
                                                (take (nat (cnt - offset + 1)) (drop (nat offset) members))
                                          in Inr (zrangeReply zx withscores resultMembers, st))
                                       else if scoresDiffer members (int (length members) - 1)
                                       then Inr (''*0'' @ CRLF, st)
                                       else
                                         (let members = SortFunc zx
                                                (\<lambda>a b. if reverse then CompareLex zx (Value b) (Value a)
                                                        else CompareLex zx (Value a) (Value b)) members;
                                              resultMembers = filter (inLexRange zx lexStart lexStop)
                                                (take (nat (cnt - offset + 1)) (drop (nat offset) members))
                                          in Inr (zrangeReply zx withscores resultMembers, st))
                              | _ \<Rightarrow> Inl (Err (''value at '' @ key @ '' is not a sorted set''))))))"

subsection \<open>ZREM, ZREMRANGEBYSCORE, ZREMRANGEBYLEX and HDEL\<close>

text \<open>
  The loop of \<open>handleZREM\<close> over the members named in the command, counting those that
  \<open>Remove\<close> reports as removed. The set is reached through a pointer: what the loop leaves
  is what the key holds, and the handler does nothing else to the key.
\<close>

fun zremLoop :: "MemberParam list \<Rightarrow> string list \<Rightarrow> int \<Rightarrow> MemberParam list \<times> int" where
  "zremLoop zs [] deletedCount = (zs, deletedCount)"
| "zremLoop zs (m # ms) deletedCount =
     (if fst (Remove zs m) then zremLoop (snd (Remove zs m)) ms (deletedCount + 1)
      else zremLoop (snd (Remove zs m)) ms deletedCount)"

definition handleZREM :: "zexterns \<Rightarrow> string list \<Rightarrow> store \<Rightarrow> error + reply" where
  "handleZREM zx cmd st =
     (case zremKeyFunc zx cmd of
        Inl err \<Rightarrow> Inl err
      | Inr keys \<Rightarrow>
          (case WriteKeys keys of
             [] \<Rightarrow> Inl Panic
           | key # others \<Rightarrow>
               if \<not> KeyExists st key then Inr ('':0'' @ CRLF, st)
               else (case GetValue st key of
                   Some (ZSetVal zs) \<Rightarrow>
                     if length cmd < 2 then Inl Panic
                     else (case zremLoop zs (drop 2 cmd) 0 of
                         (zs', deletedCount) \<Rightarrow>
                           Inr ('':'' @ itoa deletedCount @ CRLF, st(key \<mapsto> ZSetVal zs')))
                 | _ \<Rightarrow> Inl (Err (''value at '' @ key @ '' is not a sorted set'')))))"

text \<open>
  The loops of \<open>handleZREMRANGEBYSCORE\<close> and \<open>handleZREMRANGEBYLEX\<close> range over the members
  that \<open>GetAll\<close> returned and remove each one that is in the range, counting it.
\<close>

fun removeEach :: "MemberParam list \<Rightarrow> MemberParam list \<Rightarrow> MemberParam list" where
  "removeEach zs [] = zs"
| "removeEach zs (m # ms) = removeEach (snd (Remove zs (Value m))) ms"

definition handleZREMRANGEBYSCORE :: "zexterns \<Rightarrow> string list \<Rightarrow> store \<Rightarrow> error + reply" where
  "handleZREMRANGEBYSCORE zx cmd st =
     (case zremrangebyscoreKeyFunc zx cmd of
        Inl err \<Rightarrow> Inl err
      | Inr keys \<Rightarrow>
          (case WriteKeys keys of
             [] \<Rightarrow> Inl Panic
           | key # others \<Rightarrow>
               if length cmd < 3 then Inl Panic
               else case ParseFloat zx (cmd ! 2) of
                   Inl err \<Rightarrow> Inl err
                 | Inr minimum \<Rightarrow>
                     if length cmd < 4 then Inl Panic
                     else (case ParseFloat zx (cmd ! 3) of
                         Inl err \<Rightarrow> Inl err
                       | Inr maximum \<Rightarrow>
                           if \<not> KeyExists st key then Inr ('':0'' @ CRLF, st)
                           else (case GetValue st key of
                               Some (ZSetVal zs) \<Rightarrow>
                                 let hit = filter (\<lambda>m. f_ge (Score m) minimum \<and> f_le (Score m) maximum)
                                             (GetAll zs)
                                 in Inr ('':'' @ itoa (int (length hit)) @ CRLF,
                                         st(key \<mapsto> ZSetVal (removeEach zs hit)))
                             | _ \<Rightarrow> Inl (Err (''value at '' @ key @ '' is not a sorted set''))))))"

definition handleZREMRANGEBYLEX :: "zexterns \<Rightarrow> string list \<Rightarrow> store \<Rightarrow> error + reply" where
  "handleZREMRANGEBYLEX zx cmd st =
     (case zremrangebylexKeyFunc zx cmd of
        Inl err \<Rightarrow> Inl err
      | Inr keys \<Rightarrow>
          (case WriteKeys keys of
             [] \<Rightarrow> Inl Panic
           | key # others \<Rightarrow>
               if length cmd < 4 then Inl Panic
               else let minimum = cmd ! 2; maximum = cmd ! 3 in
                 if \<not> KeyExists st key then Inr ('':0'' @ CRLF, st)
                 else (case GetValue st key of
                     Some (ZSetVal zs) \<Rightarrow>
                       let members = GetAll zs in
                       if scoresDiffer members (int (length members) - 1) then Inr ('':0'' @ CRLF, st)
                       else let hit = filter (inLexRange zx minimum maximum) members
                         in Inr ('':'' @ itoa (int (length hit)) @ CRLF,
                                 st(key \<mapsto> ZSetVal (removeEach zs hit)))
                   | _ \<Rightarrow> Inl (Err (''value at '' @ key @ '' is not a sorted set'')))))"

text \<open>
  The loop of \<open>handleHDEL\<close>: a field that the hash holds is deleted and counted. The hash
  is then stored back at the key by \<open>SetValue\<close>.
\<close>

fun hdelLoop :: "(string \<rightharpoonup> scalar) \<Rightarrow> string list \<Rightarrow> int \<Rightarrow> (string \<rightharpoonup> scalar) \<times> int" where
  "hdelLoop hash [] cnt = (hash, cnt)"
| "hdelLoop hash (fld # flds) cnt =
     (if hash fld \<noteq> None then hdelLoop (hash(fld := None)) flds (cnt + 1)
      else hdelLoop hash flds cnt)"

definition handleHDEL :: "zexterns \<Rightarrow> string list \<Rightarrow> store \<Rightarrow> error + reply" where
  "handleHDEL zx cmd st =
     (case hdelKeyFunc zx cmd of
        Inl err \<Rightarrow> Inl err
      | Inr keys \<Rightarrow>
          (case WriteKeys keys of
             [] \<Rightarrow> Inl Panic
           | key # others \<Rightarrow>
               if length cmd < 2 then Inl Panic
               else let flds = drop 2 cmd in
                 if \<not> KeyExists st key then Inr ('':0'' @ CRLF, st)
                 else (case GetValue st key of
                     Some (HashVal hash) \<Rightarrow>
                       (case hdelLoop hash flds 0 of
                          (hash', cnt) \<Rightarrow>
                            Inr ('':'' @ itoa cnt @ CRLF, SetValue st key (HashVal hash')))
                   | _ \<Rightarrow> Inl (Err (''value at '' @ key @ '' is not a hash'')))))"

section \<open>Properties\<close>


subsection \<open>Evaluating the library functions on the tokens used below\<close>

lemma itoa_evals:
  "itoa 0 = ''0''" "itoa 1 = ''1''" "itoa 2 = ''2''" "itoa 3 = ''3''"
  by code_simp+

lemma adaptToken_ints:
  "adaptToken ''0'' = IntV 0" "adaptToken ''1'' = IntV 1" "adaptToken ''2'' = IntV 2"
  "adaptToken ''3'' = IntV 3" "adaptToken ''-1'' = IntV (- 1)" "adaptToken ''-2'' = IntV (- 2)"
  by code_simp+

lemma AdaptType_ex0 [simp]: "AdaptType ex0 = adaptToken"
  by (simp add: ex0_def)

subsection \<open>List indices\<close>

text \<open>
  C7, as stated, fails: on the list 1, 2, 3 the command \<open>LINDEX k -1\<close> does not return the
  last element; the handler refuses the negative index.
\<close>

theorem lindex_negative_counterexample:
  "handleLIndex ex0 [''lindex'', ''k'', ''-1''] [''k'' \<mapsto> ListVal [IntV 1, IntV 2, IntV 3]]
     = Inl (Err ''index must be within list range'')"
  by (simp add: handleLIndex_def adaptToken_ints KeyExists_def GetValue_def)

text \<open>
  C7, amended: \<open>LINDEX\<close> and \<open>LRANGE\<close> do not count a negative index from the tail. On a
  key that holds a list, every index outside \<open>0 \<le> i < len\<close>, a negative one included, is
  answered by an error and never clamped: \<open>LINDEX\<close> answers an index in range by that
  element and any other by an error; \<open>LRANGE\<close> refuses a start outside the range and an
  end outside the range, except the end \<open>-1\<close>, which stands for the end of the list and
  yields the elements from start to the tail.
\<close>

theorem lindex_lrange_bounds:
  assumes "st k = Some (ListVal list)"
  shows "(AdaptType ex i = IntV index \<and> (index < 0 \<or> int (length list) \<le> index)
            \<longrightarrow> handleLIndex ex [c, k, i] st = Inl (Err ''index must be within list range''))
       \<and> (AdaptType ex i = IntV index \<and> 0 \<le> index \<and> index < int (length list)
            \<longrightarrow> handleLIndex ex [c, k, i] st = Inr (''+'' @ fmtS ex (list ! nat index) @ CRLF @ LF, st))
       \<and> (AdaptType ex s = IntV start \<and> AdaptType ex e = IntV end \<and> (start < 0 \<or> int (length list) \<le> start)
            \<longrightarrow> handleLRange ex [c, k, s, e] st = Inl (Err ''start index not within list range''))
       \<and> (AdaptType ex s = IntV start \<and> AdaptType ex e = IntV end \<and> 0 \<le> start \<and> start < int (length list)
             \<and> (end < - 1 \<or> int (length list) \<le> end)
            \<longrightarrow> handleLRange ex [c, k, s, e] st = Inl (Err ''end index must be within list range or -1''))
       \<and> (AdaptType ex s = IntV start \<and> AdaptType ex e = IntV (- 1) \<and> 0 \<le> start \<and> start < int (length list)
            \<longrightarrow> handleLRange ex [c, k, s, e] st =
                Inr (''*'' @ itoa (int (length list) - start) @ CRLF
                     @ concat (map (\<lambda>x. bulk (fmtV ex x)) (drop (nat start) list)) @ LF, st))"
  using assms by (auto simp add: handleLIndex_def handleLRange_def KeyExists_def GetValue_def)

text \<open>C7, the amended statement at work on the list a, b.\<close>

theorem lindex_lrange_bounds_witness:
  "handleLIndex ex0 [''lindex'', ''k'', ''-2''] [''k'' \<mapsto> ListVal [StrV ''a'', StrV ''b'']]
     = Inl (Err ''index must be within list range'')
   \<and> handleLIndex ex0 [''lindex'', ''k'', ''2''] [''k'' \<mapsto> ListVal [StrV ''a'', StrV ''b'']]
     = Inl (Err ''index must be within list range'')
   \<and> handleLIndex ex0 [''lindex'', ''k'', ''1''] [''k'' \<mapsto> ListVal [StrV ''a'', StrV ''b'']]
     = Inr (''+b'' @ CRLF @ LF, [''k'' \<mapsto> ListVal [StrV ''a'', StrV ''b'']])
   \<and> handleLRange ex0 [''lrange'', ''k'', ''-1'', ''1''] [''k'' \<mapsto> ListVal [StrV ''a'', StrV ''b'']]
     = Inl (Err ''start index not within list range'')
   \<and> handleLRange ex0 [''lrange'', ''k'', ''0'', ''-2''] [''k'' \<mapsto> ListVal [StrV ''a'', StrV ''b'']]
     = Inl (Err ''end index must be within list range or -1'')
   \<and> handleLRange ex0 [''lrange'', ''k'', ''1'', ''-1''] [''k'' \<mapsto> ListVal [StrV ''a'', StrV ''b'']]
     = Inr (''*1'' @ CRLF @ ''$1'' @ CRLF @ ''b'' @ CRLF @ LF, [''k'' \<mapsto> ListVal [StrV ''a'', StrV ''b'']])"
proof -
  let ?st = "[''k'' \<mapsto> ListVal [StrV ''a'', StrV ''b'']]"
  have k: "?st ''k'' = Some (ListVal [StrV ''a'', StrV ''b''])" by simp
  note T = lindex_lrange_bounds [where st = ?st and k = "''k''" and ex = ex0 and c = "''lindex''", OF k]
  note U = lindex_lrange_bounds [where st = ?st and k = "''k''" and ex = ex0 and c = "''lrange''", OF k]
  have 1: "handleLIndex ex0 [''lindex'', ''k'', ''-2''] ?st = Inl (Err ''index must be within list range'')"
    using T [where i = "''-2''" and index = "- 2"] by (simp add: adaptToken_ints)
  have 2: "handleLIndex ex0 [''lindex'', ''k'', ''2''] ?st = Inl (Err ''index must be within list range'')"
    using T [where i = "''2''" and index = 2] by (simp add: adaptToken_ints)
  have 3: "handleLIndex ex0 [''lindex'', ''k'', ''1''] ?st = Inr (''+b'' @ CRLF @ LF, ?st)"
    using T [where i = "''1''" and index = 1] by (simp add: adaptToken_ints fmtS_def)
  have 4: "handleLRange ex0 [''lrange'', ''k'', ''-1'', ''1''] ?st = Inl (Err ''start index not within list range'')"
    using U [where s = "''-1''" and start = "- 1" and e = "''1''" and ?end = 1] by (simp add: adaptToken_ints)
  have 5: "handleLRange ex0 [''lrange'', ''k'', ''0'', ''-2''] ?st = Inl (Err ''end index must be within list range or -1'')"
    using U [where s = "''0''" and start = 0 and e = "''-2''" and ?end = "- 2"] by (simp add: adaptToken_ints)
  have 6: "handleLRange ex0 [''lrange'', ''k'', ''1'', ''-1''] ?st
      = Inr (''*1'' @ CRLF @ ''$1'' @ CRLF @ ''b'' @ CRLF @ LF, ?st)"
    using U [where s = "''1''" and start = 1 and e = "''-1''"]
    by (simp add: adaptToken_ints fmtV_def bulk_def itoa_evals)
  from 1 2 3 4 5 6 show ?thesis by blast
qed

subsection \<open>LREM\<close>

lemma filterNonNil_lremScan:
  "filterNonNil (lremScan ex v n (map Some xs)) = removeFirstN n (\<lambda>e. fmtV ex e = v) xs"
  by (induction xs arbitrary: n) (simp_all add: filterNonNil_def)

lemma filterNonNil_lremScan_rev:
  "filterNonNil (lremScan ex v n (rev (map Some xs))) = removeFirstN n (\<lambda>e. fmtV ex e = v) (rev xs)"
  using filterNonNil_lremScan [of ex v n "rev xs"] by (simp add: rev_map)

lemma filterNonNil_rev: "filterNonNil (rev ys) = rev (filterNonNil ys)"
  by (simp add: filterNonNil_def rev_map rev_filter)

lemma filterNonNil_map_Some: "filterNonNil (map Some xs) = xs"
  by (induction xs) (simp_all add: filterNonNil_def)

text \<open>
  C2, as stated, fails: \<open>LREM k 0 a\<close> on the list a, b, a removes nothing; the list is
  stored back as it was.
\<close>

theorem lrem_zero_counterexample:
  "handleLRem ex0 [''lrem'', ''k'', ''0'', ''a''] [''k'' \<mapsto> ListVal [StrV ''a'', StrV ''b'', StrV ''a'']]
     = Inr (OK, [''k'' \<mapsto> ListVal [StrV ''a'', StrV ''b'', StrV ''a'']])"
  by (simp add: handleLRem_def adaptToken_ints KeyExists_def GetValue_def SetValue_def
      filterNonNil_def)

text \<open>
  C2, amended: on a key that holds a list, \<open>LREM\<close> with a positive count removes the first
  \<open>count\<close> elements that match the value, scanning from the head; with a negative count it
  removes the last \<open>|count|\<close> matching elements, scanning from the tail; with the count
  zero it removes nothing and leaves the list as it is. An element matches when its \<open>%v\<close>
  form is the value.
\<close>

theorem lrem_scan:
  assumes "st k = Some (ListVal list)" and "AdaptType ex c = IntV cnt"
  shows "handleLRem ex [w, k, c, v] st =
           Inr (OK, st(k \<mapsto> ListVal
             (if cnt > 0 then removeFirstN (nat cnt) (\<lambda>e. fmtV ex e = v) list
              else if cnt < 0 then rev (removeFirstN (nat (- cnt)) (\<lambda>e. fmtV ex e = v) (rev list))
              else list)))"
proof -
  have pos: "cnt > 0 \<Longrightarrow> nat \<bar>cnt\<bar> = nat cnt" and neg: "cnt < 0 \<Longrightarrow> nat \<bar>cnt\<bar> = nat (- cnt)"
    by simp_all
  show ?thesis
    using assms
    by (simp add: handleLRem_def KeyExists_def GetValue_def SetValue_def Let_def
        filterNonNil_lremScan filterNonNil_lremScan_rev filterNonNil_rev filterNonNil_map_Some pos neg)
qed

text \<open>C2, the amended statement at work on the list a, b, a, c, a.\<close>

theorem lrem_scan_witness:
  "handleLRem ex0 [''lrem'', ''k'', ''2'', ''a'']
       [''k'' \<mapsto> ListVal [StrV ''a'', StrV ''b'', StrV ''a'', StrV ''c'', StrV ''a'']]
     = Inr (OK, [''k'' \<mapsto> ListVal [StrV ''b'', StrV ''c'', StrV ''a'']])
   \<and> handleLRem ex0 [''lrem'', ''k'', ''-2'', ''a'']
       [''k'' \<mapsto> ListVal [StrV ''a'', StrV ''b'', StrV ''a'', StrV ''c'', StrV ''a'']]
     = Inr (OK, [''k'' \<mapsto> ListVal [StrV ''a'', StrV ''b'', StrV ''c'']])
   \<and> handleLRem ex0 [''lrem'', ''k'', ''0'', ''a'']
       [''k'' \<mapsto> ListVal [StrV ''a'', StrV ''b'', StrV ''a'', StrV ''c'', StrV ''a'']]
     = Inr (OK, [''k'' \<mapsto> ListVal [StrV ''a'', StrV ''b'', StrV ''a'', StrV ''c'', StrV ''a'']])"
proof -
  let ?l = "[StrV ''a'', StrV ''b'', StrV ''a'', StrV ''c'', StrV ''a'']"
  let ?st = "[''k'' \<mapsto> ListVal ?l]"
  have k: "?st ''k'' = Some (ListVal ?l)" by simp
  have n2: "nat 2 = Suc (Suc 0)" by simp
  note T = lrem_scan [where st = ?st and k = "''k''" and ex = ex0 and w = "''lrem''" and v = "''a''", OF k]
  have 1: "handleLRem ex0 [''lrem'', ''k'', ''2'', ''a''] ?st
             = Inr (OK, [''k'' \<mapsto> ListVal [StrV ''b'', StrV ''c'', StrV ''a'']])"
    using T [where c = "''2''" and cnt = 2] by (simp add: adaptToken_ints fmtV_def n2)
  have 2: "handleLRem ex0 [''lrem'', ''k'', ''-2'', ''a''] ?st
             = Inr (OK, [''k'' \<mapsto> ListVal [StrV ''a'', StrV ''b'', StrV ''c'']])"
    using T [where c = "''-2''" and cnt = "- 2"] by (simp add: adaptToken_ints fmtV_def n2)
  have 3: "handleLRem ex0 [''lrem'', ''k'', ''0'', ''a''] ?st = Inr (OK, ?st)"
    using T [where c = "''0''" and cnt = 0] by (simp add: adaptToken_ints)
  from 1 2 3 show ?thesis by blast
qed

subsection \<open>RPUSH, LRANGE, LPOP\<close>

lemma ToLower_evals:
  "ToLower ''RPUSH'' = ''rpush''" "ToLower ''LPOP'' = ''lpop''"
  "ToLower ''rpush'' = ''rpush''" "ToLower ''lpop'' = ''lpop''"
  by code_simp+

text \<open>
  C6, as stated, fails: from an empty keyspace \<open>RPUSH l 1 2 3\<close> is answered by the simple
  string \<open>+OK\<close> and not by the integer \<open>:3\<close>; \<open>LRANGE l 0 -1\<close> is answered by the array
  followed by one more line feed; \<open>LPOP l\<close> is answered by the simple string \<open>+1\<close> and not by
  a bulk string.
\<close>

theorem rpush_reply_counterexample:
  "replyOf (handleRPush ex0 [''RPUSH'', ''l'', ''1'', ''2'', ''3''] Map.empty) = Some (''+OK'' @ CRLF @ LF)
   \<and> replyOf (handleRPush ex0 [''RPUSH'', ''l'', ''1'', ''2'', ''3''] Map.empty) \<noteq> Some ('':3'' @ CRLF)
   \<and> replyOf (handlePop ex0 [''LPOP'', ''l''] [''l'' \<mapsto> ListVal [IntV 1, IntV 2, IntV 3]])
       = Some (''+1'' @ CRLF @ LF)
   \<and> replyOf (handlePop ex0 [''LPOP'', ''l''] [''l'' \<mapsto> ListVal [IntV 1, IntV 2, IntV 3]])
       \<noteq> Some (''$1'' @ CRLF @ ''1'' @ CRLF)"
  by (simp add: replyOf_def handleRPush_def handlePop_def adaptToken_ints KeyExists_def GetValue_def
      SetValue_def CreateKeyAndLock_def ToLower_evals OK_def fmtV_def itoa_evals CRLF_def LF_def)

text \<open>
  C6, amended: starting from an absent key \<open>l\<close>, with the tokens 1, 2, 3, 0 and -1 adapted
  to these integers, \<open>RPUSH l 1 2 3\<close> stores the list 1, 2, 3 and replies with the simple
  string \<open>+OK\<close> followed by CR LF LF; \<open>LRANGE l 0 -1\<close> then replies with the array of the
  three bulk strings 1, 2, 3 followed by one more line feed; \<open>LPOP l\<close> then replies with the
  simple string \<open>+1\<close> followed by CR LF LF and leaves the list 2, 3.
\<close>

theorem rpush_lrange_lpop_replies:
  assumes "st l = None"
    and "AdaptType ex ''1'' = IntV 1" and "AdaptType ex ''2'' = IntV 2" and "AdaptType ex ''3'' = IntV 3"
    and "AdaptType ex ''0'' = IntV 0" and "AdaptType ex ''-1'' = IntV (- 1)"
  shows "handleRPush ex [''RPUSH'', l, ''1'', ''2'', ''3''] st
           = Inr (''+OK'' @ CRLF @ LF, st(l \<mapsto> ListVal [IntV 1, IntV 2, IntV 3]))
       \<and> handleLRange ex [''LRANGE'', l, ''0'', ''-1''] (st(l \<mapsto> ListVal [IntV 1, IntV 2, IntV 3]))
           = Inr (''*3'' @ CRLF @ ''$1'' @ CRLF @ ''1'' @ CRLF @ ''$1'' @ CRLF @ ''2'' @ CRLF
                   @ ''$1'' @ CRLF @ ''3'' @ CRLF @ LF,
                  st(l \<mapsto> ListVal [IntV 1, IntV 2, IntV 3]))
       \<and> handlePop ex [''LPOP'', l] (st(l \<mapsto> ListVal [IntV 1, IntV 2, IntV 3]))
           = Inr (''+1'' @ CRLF @ LF, st(l \<mapsto> ListVal [IntV 2, IntV 3]))"
proof -
  have push: "handleRPush ex [''RPUSH'', l, ''1'', ''2'', ''3''] st
           = Inr (''+OK'' @ CRLF @ LF, st(l \<mapsto> ListVal [IntV 1, IntV 2, IntV 3]))"
    using assms
    by (simp add: handleRPush_def KeyExists_def GetValue_def SetValue_def CreateKeyAndLock_def
        ToLower_evals OK_def)
  have range: "handleLRange ex [''LRANGE'', l, ''0'', ''-1''] (st(l \<mapsto> ListVal [IntV 1, IntV 2, IntV 3]))
           = Inr (''*3'' @ CRLF @ ''$1'' @ CRLF @ ''1'' @ CRLF @ ''$1'' @ CRLF @ ''2'' @ CRLF
                   @ ''$1'' @ CRLF @ ''3'' @ CRLF @ LF,
                  st(l \<mapsto> ListVal [IntV 1, IntV 2, IntV 3]))"
    using assms
    by (simp add: handleLRange_def KeyExists_def GetValue_def fmtV_def bulk_def itoa_evals)
  have pop: "handlePop ex [''LPOP'', l] (st(l \<mapsto> ListVal [IntV 1, IntV 2, IntV 3]))
           = Inr (''+1'' @ CRLF @ LF, st(l \<mapsto> ListVal [IntV 2, IntV 3]))"
    by (simp add: handlePop_def KeyExists_def GetValue_def SetValue_def ToLower_evals fmtV_def itoa_evals)
  from push range pop show ?thesis by blast
qed

text \<open>C6, the amended statement at work on the empty keyspace.\<close>

theorem rpush_lrange_lpop_replies_witness:
  "handleRPush ex0 [''RPUSH'', ''l'', ''1'', ''2'', ''3''] Map.empty
           = Inr (''+OK'' @ CRLF @ LF, [''l'' \<mapsto> ListVal [IntV 1, IntV 2, IntV 3]])
       \<and> handleLRange ex0 [''LRANGE'', ''l'', ''0'', ''-1''] [''l'' \<mapsto> ListVal [IntV 1, IntV 2, IntV 3]]
           = Inr (''*3'' @ CRLF @ ''$1'' @ CRLF @ ''1'' @ CRLF @ ''$1'' @ CRLF @ ''2'' @ CRLF
                   @ ''$1'' @ CRLF @ ''3'' @ CRLF @ LF,
                  [''l'' \<mapsto> ListVal [IntV 1, IntV 2, IntV 3]])
       \<and> handlePop ex0 [''LPOP'', ''l''] [''l'' \<mapsto> ListVal [IntV 1, IntV 2, IntV 3]]
           = Inr (''+1'' @ CRLF @ LF, [''l'' \<mapsto> ListVal [IntV 2, IntV 3]])"
  using rpush_lrange_lpop_replies [where st = Map.empty and l = "''l''" and ex = ex0]
  by (simp add: adaptToken_ints)

subsection \<open>GETRANGE and SUBSTR\<close>

lemma plugin_handleSubStr_word:
  "plugin_handleSubStr ex (g # args) st = plugin_handleSubStr ex (s # args) st"
  by (simp add: plugin_handleSubStr_def)

lemma length3: "length args = 3 \<Longrightarrow> \<exists>a b c. args = [a, b, c]"
  by (cases args; simp; rename_tac x xs; case_tac xs; simp; rename_tac y ys; case_tac ys; simp)

lemma handleSubStr_word:
  "handleSubStr ex (g # args) st = handleSubStr ex (s # args) st"
proof (cases "length args = 3")
  case True
  then obtain a b c where "args = [a, b, c]"
    using length3 by blast
  then show ?thesis by (simp add: handleSubStr_def subStrKeyFunc_def)
next
  case False
  then show ?thesis by (simp add: handleSubStr_def subStrKeyFunc_def)
qed

lemma subStrKeyFunc_word:
  "subStrKeyFunc ex (g # args) = subStrKeyFunc ex (s # args)"
  by (simp add: subStrKeyFunc_def)

text \<open>
  C9: whatever the arguments and the keyspace, a command whose word is GETRANGE (in any
  letter case) and the command with the same arguments whose word is SUBSTR produce the same
  result, reply or error: in the plugin's \<open>HandleCommand\<close>, and through the registry
  \<open>Commands\<close>, whose two entries carry the same key extractor and the same handler.
\<close>

theorem getrange_substr_same:
  assumes "ToLower g = ''getrange''" and "ToLower s = ''substr''"
  shows "plugin_HandleCommand h1 h2 ex (g # args) st = plugin_HandleCommand h1 h2 ex (s # args) st
       \<and> dispatch (Commands h1 h2 ex) (g # args) st = dispatch (Commands h1 h2 ex) (s # args) st
       \<and> map HandlerFunc (filter (\<lambda>c. Command c = ''getrange'') (Commands h1 h2 ex))
           = map HandlerFunc (filter (\<lambda>c. Command c = ''substr'') (Commands h1 h2 ex))
       \<and> map KeyExtractionFunc (filter (\<lambda>c. Command c = ''getrange'') (Commands h1 h2 ex))
           = map KeyExtractionFunc (filter (\<lambda>c. Command c = ''substr'') (Commands h1 h2 ex))"
proof -
  have 1: "plugin_HandleCommand h1 h2 ex (g # args) st = plugin_HandleCommand h1 h2 ex (s # args) st"
    using assms plugin_handleSubStr_word [of ex g args st s]
    by (simp add: plugin_HandleCommand_def)
  have 2: "dispatch (Commands h1 h2 ex) (g # args) st = dispatch (Commands h1 h2 ex) (s # args) st"
    using assms handleSubStr_word [of ex g args st s] subStrKeyFunc_word [of ex g args s]
    by (simp add: dispatch_def Commands_def split: sum.split)
  have 3: "map HandlerFunc (filter (\<lambda>c. Command c = ''getrange'') (Commands h1 h2 ex))
           = map HandlerFunc (filter (\<lambda>c. Command c = ''substr'') (Commands h1 h2 ex))"
    by (simp add: Commands_def)
  have 4: "map KeyExtractionFunc (filter (\<lambda>c. Command c = ''getrange'') (Commands h1 h2 ex))
           = map KeyExtractionFunc (filter (\<lambda>c. Command c = ''substr'') (Commands h1 h2 ex))"
    by (simp add: Commands_def)
  from 1 2 3 4 show ?thesis by (intro conjI)
qed

text \<open>
  C9 at work: GETRANGE and SUBSTR with the arguments k 0 1 on the string abc, with a handler
  that refuses in the place of the handlers of SETRANGE and STRLEN.
\<close>

theorem getrange_substr_same_witness:
  "plugin_HandleCommand HandleCommandWithConnection HandleCommandWithConnection ex0
       [''GETRANGE'', ''k'', ''0'', ''1''] [''k'' \<mapsto> StringVal ''abc'']
     = plugin_HandleCommand HandleCommandWithConnection HandleCommandWithConnection ex0
       [''SUBSTR'', ''k'', ''0'', ''1''] [''k'' \<mapsto> StringVal ''abc'']
   \<and> dispatch (Commands HandleCommandWithConnection HandleCommandWithConnection ex0)
       [''GETRANGE'', ''k'', ''0'', ''1''] [''k'' \<mapsto> StringVal ''abc'']
     = dispatch (Commands HandleCommandWithConnection HandleCommandWithConnection ex0)
       [''SUBSTR'', ''k'', ''0'', ''1''] [''k'' \<mapsto> StringVal ''abc'']
   \<and> dispatch (Commands HandleCommandWithConnection HandleCommandWithConnection ex0)
       [''SUBSTR'', ''k'', ''0'', ''1''] [''k'' \<mapsto> StringVal ''abc'']
     = Inr (''$2'' @ CRLF @ ''ab'' @ CRLF, [''k'' \<mapsto> StringVal ''abc''])"
proof -
  let ?h = HandleCommandWithConnection
  let ?st = "[''k'' \<mapsto> StringVal ''abc'']"
  have g: "ToLower ''GETRANGE'' = ''getrange''" and s: "ToLower ''SUBSTR'' = ''substr''"
    by code_simp+
  have w: "wrap64 2 = 2" by code_simp
  have r: "dispatch (Commands ?h ?h ex0) [''SUBSTR'', ''k'', ''0'', ''1''] ?st
     = Inr (''$2'' @ CRLF @ ''ab'' @ CRLF, ?st)"
    by (simp add: dispatch_def Commands_def s handleSubStr_def subStrKeyFunc_def adaptToken_ints
        KeyExists_def GetValue_def normIndex_def sliceStr_def itoa_evals w)
  note T = getrange_substr_same [OF g s, of ?h ?h ex0 "[''k'', ''0'', ''1'']" ?st]
  have a: "plugin_HandleCommand ?h ?h ex0 [''GETRANGE'', ''k'', ''0'', ''1''] ?st
     = plugin_HandleCommand ?h ?h ex0 [''SUBSTR'', ''k'', ''0'', ''1''] ?st"
    using T by (rule conjunct1)
  have b: "dispatch (Commands ?h ?h ex0) [''GETRANGE'', ''k'', ''0'', ''1''] ?st
     = dispatch (Commands ?h ?h ex0) [''SUBSTR'', ''k'', ''0'', ''1''] ?st"
    using T [THEN conjunct2] by (rule conjunct1)
  from a b r show ?thesis by (intro conjI)
qed

subsection \<open>SUBSTR and GETRANGE with the start beyond the end\<close>

lemma adaptToken_10: "adaptToken ''10'' = IntV 10"
  by code_simp

lemma wrap64_evals: "wrap64 2 = 2" "wrap64 3 = 3"
  by code_simp+

lemma reverseBytes_b: "reverseBytes ''b'' = ''b''"
  by (simp add: reverseBytes_def runeString_def)

text \<open>
  C10: on the string abc, \<open>SUBSTR k 10 1\<close> has its start beyond its end, and both handlers
  panic instead of returning the slice reversed: the end is clamped to the length of the
  string before the bounds are swapped, the start is not, and the swapped slice
  \<open>value[1:10]\<close> (\<open>value[2:10]\<close> in the plugin) is out of range. The handler of the plugin,
  which advances the end by one before it compares, also answers \<open>SUBSTR k 2 1\<close> by the
  empty string, where the handler of the string module returns the one byte of the slice.
\<close>

theorem substr_start_beyond_end_failures:
  "handleSubStr ex0 [''substr'', ''k'', ''10'', ''1''] [''k'' \<mapsto> StringVal ''abc''] = Inl Panic
   \<and> plugin_handleSubStr ex0 [''substr'', ''k'', ''10'', ''1''] [''k'' \<mapsto> StringVal ''abc''] = Inl Panic
   \<and> plugin_handleSubStr ex0 [''substr'', ''k'', ''2'', ''1''] [''k'' \<mapsto> StringVal ''abc'']
       = Inr (''$0'' @ CRLF @ CRLF @ LF, [''k'' \<mapsto> StringVal ''abc''])
   \<and> handleSubStr ex0 [''substr'', ''k'', ''2'', ''1''] [''k'' \<mapsto> StringVal ''abc'']
       = Inr (''$1'' @ CRLF @ ''b'' @ CRLF, [''k'' \<mapsto> StringVal ''abc''])"
  by (simp add: handleSubStr_def plugin_handleSubStr_def subStrKeyFunc_def adaptToken_ints
      adaptToken_10 KeyExists_def GetValue_def normIndex_def sliceStr_def wrap64_evals itoa_evals
      reverseBytes_b)

subsection \<open>ZLEXCOUNT\<close>

lemma zx0_fields [simp]:
  "AdaptType zx0 = adaptToken" "CompareLex zx0 = lexCompare" "ParseFloat zx0 = parseFloatToken"
  "Atoi zx0 = atoiToken" "SortFunc zx0 = insertionSortCmpFunc"
  "zaddKeyFunc zx0 = keyAt1 4 True" "zlexcountKeyFunc zx0 = keyAt1 4 False"
  "zrangeKeyCount zx0 = keyAt1 4 False" "zremKeyFunc zx0 = keyAt1 3 True"
  "zremrangebyscoreKeyFunc zx0 = keyAt1 4 True" "zremrangebylexKeyFunc zx0 = keyAt1 4 True"
  "hdelKeyFunc zx0 = keyAt1 3 True"
  by (simp_all add: zx0_def)

lemma lexCompare_abc:
  "lexCompare ''a'' ''a'' = 0" "lexCompare ''a'' ''c'' = - 1"
  "lexCompare ''b'' ''a'' = 1" "lexCompare ''b'' ''c'' = - 1"
  "lexCompare ''c'' ''a'' = 1" "lexCompare ''c'' ''c'' = 0"
  "lexCompare ''a'' ''b'' = - 1" "lexCompare ''c'' ''b'' = 1" "lexCompare ''b'' ''b'' = 0"
  by simp_all

text \<open>
  C1: the sorted set with the records (a, 1), (b, 1), (c, 2) does not carry one score, yet
  \<open>ZLEXCOUNT k a c\<close> counts its three members instead of returning 0: the loop that
  compares neighbouring scores stops two short of the length and never looks at the last
  record.
\<close>

theorem zlexcount_last_score_ignored:
  "handleZLEXCOUNT zx0 [''zlexcount'', ''k'', ''a'', ''c'']
       [''k'' \<mapsto> ZSetVal [\<lparr>Value = ''a'', Score = Fin 1\<rparr>, \<lparr>Value = ''b'', Score = Fin 1\<rparr>,
                          \<lparr>Value = ''c'', Score = Fin 2\<rparr>]]
     = Inr ('':3'' @ CRLF,
       [''k'' \<mapsto> ZSetVal [\<lparr>Value = ''a'', Score = Fin 1\<rparr>, \<lparr>Value = ''b'', Score = Fin 1\<rparr>,
                          \<lparr>Value = ''c'', Score = Fin 2\<rparr>]])"
  by (simp add: handleZLEXCOUNT_def keyAt1_def KeyExists_def GetValue_def GetAll_def
      sortMembers_def memberLess_def scoresDiffer_def f_ne_def inLexRange_def lexCompare_abc
      itoa_evals)

subsection \<open>ZADD\<close>

lemma adaptToken_words:
  "adaptToken ''zadd'' = StrV ''zadd''" "adaptToken ''k'' = StrV ''k''" "adaptToken ''a'' = StrV ''a''"
  "adaptToken ''INCR'' = StrV ''INCR''" "adaptToken ''NX'' = StrV ''NX''" "adaptToken ''XX'' = StrV ''XX''"
  "adaptToken ''GT'' = StrV ''GT''" "adaptToken ''5'' = IntV 5"
  by code_simp+

lemma ToLower_options:
  "ToLower ''zadd'' = ''zadd''" "ToLower ''k'' = ''k''" "ToLower ''a'' = ''a''"
  "ToLower ''INCR'' = ''incr''" "ToLower ''NX'' = ''nx''" "ToLower ''XX'' = ''xx''"
  "ToLower ''GT'' = ''gt''" "ToLower ''ch'' = ''ch''" "ToLower ''incr'' = ''incr''"
  by code_simp+

text \<open>
  C3: on an absent key, \<open>ZADD k INCR 5 a\<close> creates the set with the member a of score 5 and
  replies with the integer 1, the number of members, and not with the new score 5.
  On a key that exists the same handler replies with the score.
\<close>

theorem zadd_incr_absent_key_count:
  "handleZADD zx0 [''zadd'', ''k'', ''INCR'', ''5'', ''a''] Map.empty
     = Inr ('':1'' @ CRLF, [''k'' \<mapsto> ZSetVal [\<lparr>Value = ''a'', Score = Fin 5\<rparr>]])"
  by (simp add: handleZADD_def keyAt1_def isScoreWord_def adaptToken_words ToLower_options
      EqualFold_def KeyExists_def SetValue_def CreateKeyAndLock_def NewSortedSet_def Remove_def
      Cardinality_def itoa_evals)

lemma ToLower_Nil: "ToLower [] = []"
  by code_simp

text \<open>
  C4: \<open>ZADD k NX XX GT 5 a\<close> carries NX together with XX and NX together with GT, and is
  not refused: on an absent key it creates the set and replies with the integer 1. Each
  NX or XX overwrites the one update policy that the handler keeps, so the two are never
  seen together, and the XX hides the NX from the check that GT makes. \<open>ZADD k NX XX 5 a\<close>
  is accepted in the same way. With NX and GT alone the handler does refuse, in either
  order, with its message that GT/LT are not allowed if NX is provided.
\<close>

theorem zadd_conflicting_options_accepted:
  "handleZADD zx0 [''zadd'', ''k'', ''NX'', ''XX'', ''GT'', ''5'', ''a''] Map.empty
     = Inr ('':1'' @ CRLF, [''k'' \<mapsto> ZSetVal [\<lparr>Value = ''a'', Score = Fin 5\<rparr>]])
   \<and> handleZADD zx0 [''zadd'', ''k'', ''NX'', ''XX'', ''5'', ''a''] Map.empty
     = Inr ('':1'' @ CRLF, [''k'' \<mapsto> ZSetVal [\<lparr>Value = ''a'', Score = Fin 5\<rparr>]])
   \<and> handleZADD zx0 [''zadd'', ''k'', ''NX'', ''GT'', ''5'', ''a''] Map.empty
     = Inl (Err ''GT/LT flags not allowed if NX flag is provided'')
   \<and> handleZADD zx0 [''zadd'', ''k'', ''GT'', ''NX'', ''5'', ''a''] Map.empty
     = Inl (Err ''GT/LT flags not allowed if NX flag is provided'')"
  by (simp add: handleZADD_def keyAt1_def isScoreWord_def adaptToken_words ToLower_options
      ToLower_Nil EqualFold_def KeyExists_def SetValue_def CreateKeyAndLock_def NewSortedSet_def
      Remove_def Cardinality_def itoa_evals)

subsection \<open>The order of a sorted set\<close>

text \<open>
  \<open>memberLess\<close> is a strict order on the records whose score is not NaN, and \<open>GetAll\<close>
  hands out the records of a set in that order, each of them once.
\<close>

lemma f_lt_irrefl: "\<not> f_lt x x"
  by (cases x) auto

lemma f_lt_asym: "f_lt x y \<Longrightarrow> \<not> f_lt y x"
  by (cases x; cases y) auto

lemma f_lt_trans: "f_lt x y \<Longrightarrow> f_lt y z \<Longrightarrow> f_lt x z"
  by (cases x; cases y; cases z) auto

lemma f_lt_not_NaN: "f_lt x y \<Longrightarrow> x \<noteq> NaN \<and> y \<noteq> NaN"
  by (cases x; cases y) auto

lemma f_lt_total: "x \<noteq> NaN \<Longrightarrow> y \<noteq> NaN \<Longrightarrow> f_lt x y \<or> x = y \<or> f_lt y x"
  by (cases x; cases y) auto

lemma lexCompare_sym: "lexCompare b a = - lexCompare a b"
  by (induction a b rule: lexCompare.induct) auto

lemma lexCompare_Cons:
  "lexCompare (a # as) (b # bs) \<le> 0 \<longleftrightarrow>
     (of_char a :: nat) < of_char b \<or> ((of_char a :: nat) = of_char b \<and> lexCompare as bs \<le> 0)"
  by auto

lemma lexCompare_Nil1: "lexCompare [] c \<le> 0"
  by (cases c) simp_all

lemma lexCompare_Nil2: "\<not> lexCompare (a # as) [] \<le> 0"
  by simp

lemma lexCompare_trans:
  "lexCompare a b \<le> 0 \<Longrightarrow> lexCompare b c \<le> 0 \<Longrightarrow> lexCompare a c \<le> 0"
proof (induction a arbitrary: b c)
  case Nil
  then show ?case by (simp add: lexCompare_Nil1)
next
  case (Cons x xs)
  obtain y ys where b: "b = y # ys"
    using Cons.prems(1) lexCompare_Nil2 by (cases b) blast+
  obtain z zs where c: "c = z # zs"
    using Cons.prems(2) lexCompare_Nil2 unfolding b by (cases c) blast+
  have xy: "(of_char x :: nat) < of_char y \<or> ((of_char x :: nat) = of_char y \<and> lexCompare xs ys \<le> 0)"
    using Cons.prems(1) unfolding b lexCompare_Cons .
  have yz: "(of_char y :: nat) < of_char z \<or> ((of_char y :: nat) = of_char z \<and> lexCompare ys zs \<le> 0)"
    using Cons.prems(2) unfolding b c lexCompare_Cons .
  have "(of_char x :: nat) < of_char z \<or> ((of_char x :: nat) = of_char z \<and> lexCompare xs zs \<le> 0)"
  proof (cases "(of_char x :: nat) < of_char y \<or> (of_char y :: nat) < of_char z")
    case True
    then show ?thesis using xy yz by (metis less_trans)
  next
    case False
    then have l1: "lexCompare xs ys \<le> 0" and l2: "lexCompare ys zs \<le> 0"
      and e1: "(of_char x :: nat) = of_char y" and e2: "(of_char y :: nat) = of_char z"
      using xy yz by blast+
    have "lexCompare xs zs \<le> 0" using l1 l2 by (rule Cons.IH)
    moreover have "(of_char x :: nat) = of_char z" using e1 e2 by (rule trans)
    ultimately show ?thesis by blast
  qed
  then show ?case unfolding c lexCompare_Cons .
qed

lemma lexCompare_flip: "lexCompare a b < 0 \<Longrightarrow> \<not> lexCompare b a < 0"
  using lexCompare_sym [of a b] by linarith

lemma lexCompare_flip_le: "\<not> lexCompare b a < 0 \<longleftrightarrow> lexCompare a b \<le> 0"
  using lexCompare_sym [of a b] by linarith

lemma memberLess_asym: "memberLess a b \<Longrightarrow> \<not> memberLess b a"
proof
  assume ab: "memberLess a b" and ba: "memberLess b a"
  show False
  proof (cases "f_lt (Score a) (Score b)")
    case True
    then have "\<not> f_lt (Score b) (Score a)" by (rule f_lt_asym)
    moreover have "Score b \<noteq> Score a" using True f_lt_irrefl by metis
    ultimately show False using ba by (simp add: memberLess_def)
  next
    case False
    then have e: "Score a = Score b" and l: "lexCompare (Value a) (Value b) < 0"
      using ab by (simp_all add: memberLess_def)
    have "\<not> f_lt (Score b) (Score a)" using e f_lt_irrefl by simp
    then have "lexCompare (Value b) (Value a) < 0" using ba by (simp add: memberLess_def)
    then show False using l lexCompare_flip by blast
  qed
qed

lemma not_memberLess_iff:
  assumes "Score a \<noteq> NaN" and "Score b \<noteq> NaN"
  shows "(\<not> memberLess b a)
           = (f_lt (Score a) (Score b) \<or> (Score a = Score b \<and> lexCompare (Value a) (Value b) \<le> 0))"
proof (cases "Score a = Score b")
  case True
  then show ?thesis
    using f_lt_irrefl [of "Score b"] lexCompare_flip_le [of "Value b" "Value a"]
    by (simp add: memberLess_def)
next
  case False
  then have "f_lt (Score a) (Score b) \<or> f_lt (Score b) (Score a)"
    using f_lt_total [OF assms] by blast
  moreover have "f_lt (Score a) (Score b) \<Longrightarrow> \<not> f_lt (Score b) (Score a)" by (rule f_lt_asym)
  ultimately show ?thesis using False by (auto simp add: memberLess_def)
qed

lemma not_memberLess_trans:
  assumes "Score a \<noteq> NaN" and "Score b \<noteq> NaN" and "Score c \<noteq> NaN"
    and ab: "\<not> memberLess b a" and bc: "\<not> memberLess c b"
  shows "\<not> memberLess c a"
proof -
  have 1: "f_lt (Score a) (Score b) \<or> (Score a = Score b \<and> lexCompare (Value a) (Value b) \<le> 0)"
    using ab assms(1,2) by (simp add: not_memberLess_iff)
  have 2: "f_lt (Score b) (Score c) \<or> (Score b = Score c \<and> lexCompare (Value b) (Value c) \<le> 0)"
    using bc assms(2,3) by (simp add: not_memberLess_iff)
  have "f_lt (Score a) (Score c) \<or> (Score a = Score c \<and> lexCompare (Value a) (Value c) \<le> 0)"
  proof (cases "f_lt (Score a) (Score b)")
    case True
    show ?thesis
    proof (cases "f_lt (Score b) (Score c)")
      case True
      with \<open>f_lt (Score a) (Score b)\<close> have "f_lt (Score a) (Score c)" by (rule f_lt_trans)
      then show ?thesis by simp
    next
      case False
      then have "Score b = Score c" using 2 by simp
      then show ?thesis using True by simp
    qed
  next
    case False
    then have e: "Score a = Score b" and l: "lexCompare (Value a) (Value b) \<le> 0" using 1 by simp_all
    show ?thesis
    proof (cases "f_lt (Score b) (Score c)")
      case True
      then show ?thesis using e by simp
    next
      case False
      then have e2: "Score b = Score c" and l2: "lexCompare (Value b) (Value c) \<le> 0" using 2 by simp_all
      from l l2 have "lexCompare (Value a) (Value c) \<le> 0" by (rule lexCompare_trans)
      then show ?thesis using e e2 by simp
    qed
  qed
  then show ?thesis using assms(1,3) by (simp add: not_memberLess_iff)
qed

lemma set_insertMember: "set (insertMember m xs) = insert m (set xs)"
  by (induction xs) auto

lemma mset_insertMember: "mset (insertMember m xs) = add_mset m (mset xs)"
  by (induction xs) auto

lemma sorted_insertMember:
  assumes "sorted_wrt (\<lambda>a b. \<not> memberLess b a) xs"
    and "Score m \<noteq> NaN" and "\<forall>x \<in> set xs. Score x \<noteq> NaN"
  shows "sorted_wrt (\<lambda>a b. \<not> memberLess b a) (insertMember m xs)"
  using assms
proof (induction xs)
  case Nil
  then show ?case by simp
next
  case (Cons x xs)
  show ?case
  proof (cases "memberLess m x")
    case True
    have "\<not> memberLess y m" if "y \<in> set (x # xs)" for y
    proof (cases "y = x")
      case True
      then show ?thesis using \<open>memberLess m x\<close> memberLess_asym by blast
    next
      case False
      then have "y \<in> set xs" using that by simp
      then have "\<not> memberLess y x" using Cons.prems(1) by simp
      moreover have "\<not> memberLess x m" using True memberLess_asym by blast
      ultimately show ?thesis
        using not_memberLess_trans [of m x y] Cons.prems(2,3) \<open>y \<in> set xs\<close> by simp
    qed
    then show ?thesis using True Cons.prems(1) by simp
  next
    case False
    have "sorted_wrt (\<lambda>a b. \<not> memberLess b a) (insertMember m xs)"
      using Cons by simp
    then show ?thesis using False Cons.prems(1) by (simp add: set_insertMember)
  qed
qed

lemma mset_sortMembers: "mset (sortMembers zs) = mset zs"
  by (induction zs) (simp_all add: sortMembers_def mset_insertMember)

lemma set_sortMembers: "set (sortMembers zs) = set zs"
  using mset_sortMembers [of zs] by (rule mset_eq_setD)

lemma sorted_sortMembers:
  "\<forall>m \<in> set zs. Score m \<noteq> NaN \<Longrightarrow> sorted_wrt (\<lambda>a b. \<not> memberLess b a) (sortMembers zs)"
proof (induction zs)
  case Nil
  then show ?case by (simp add: sortMembers_def)
next
  case (Cons z zs)
  have "sorted_wrt (\<lambda>a b. \<not> memberLess b a) (insertMember z (sortMembers zs))"
    using Cons by (intro sorted_insertMember) (simp_all add: set_sortMembers)
  then show ?case by (simp add: sortMembers_def)
qed

lemma cmp_Compare_antisym: "cmp_Compare x y \<le> 0 \<Longrightarrow> \<not> cmp_Compare y x < 0"
  using f_lt_asym [of x y] by (simp add: cmp_Compare_def split: if_splits)

lemma not_memberLess_cmp:
  assumes "Score a \<noteq> NaN" and "Score b \<noteq> NaN" and "\<not> memberLess b a"
  shows "cmp_Compare (Score a) (Score b) \<le> 0"
proof -
  have "\<not> f_lt (Score b) (Score a)" using assms(3) by (simp add: memberLess_def)
  then show ?thesis using assms(1,2) by (simp add: cmp_Compare_def)
qed

lemma insertLeft_ordered:
  "(\<And>y. y \<in> set acc \<Longrightarrow> \<not> cmp x y < 0) \<Longrightarrow> insertLeft cmp x acc = x # acc"
  by (cases acc) simp_all

lemma foldl_insertLeft_ordered:
  assumes "\<And>a b. cmp a b \<le> 0 \<Longrightarrow> \<not> cmp b a < 0"
  shows "sorted_wrt (\<lambda>a b. cmp a b \<le> 0) (rev acc @ xs)
           \<Longrightarrow> foldl (\<lambda>pre x. insertLeft cmp x pre) acc xs = rev xs @ acc"
proof (induction xs arbitrary: acc)
  case Nil
  then show ?case by simp
next
  case (Cons x xs)
  have "insertLeft cmp x acc = x # acc"
  proof (rule insertLeft_ordered)
    fix y assume "y \<in> set acc"
    then have "cmp y x \<le> 0" using Cons.prems by (auto simp add: sorted_wrt_append)
    then show "\<not> cmp x y < 0" by (rule assms)
  qed
  moreover have "sorted_wrt (\<lambda>a b. cmp a b \<le> 0) (rev (x # acc) @ xs)"
    using Cons.prems by simp
  ultimately show ?case using Cons.IH [of "x # acc"] by simp
qed

lemma insertionSortCmpFunc_ordered:
  assumes "\<And>a b. cmp a b \<le> 0 \<Longrightarrow> \<not> cmp b a < 0"
    and "sorted_wrt (\<lambda>a b. cmp a b \<le> 0) xs"
  shows "insertionSortCmpFunc cmp xs = xs"
  using foldl_insertLeft_ordered [of cmp "[]" xs] assms
  by (simp add: insertionSortCmpFunc_def)

lemma mset_GetAll: "mset (GetAll ms) = mset ms"
  by (simp add: GetAll_def mset_sortMembers)

lemma set_GetAll: "set (GetAll ms) = set ms"
  by (simp add: GetAll_def set_sortMembers)

lemma length_GetAll: "length (GetAll ms) = length ms"
  using mset_GetAll [of ms] by (rule mset_eq_length)

lemma sorted_GetAll:
  "\<forall>m \<in> set ms. Score m \<noteq> NaN \<Longrightarrow> sorted_wrt (\<lambda>a b. \<not> memberLess b a) (GetAll ms)"
  by (simp add: GetAll_def sorted_sortMembers)

subsection \<open>ZRANGE over the full score range\<close>

lemma full_range: "x \<noteq> NaN \<Longrightarrow> f_ge x NegInf \<and> f_le x PosInf"
  by (cases x) (simp_all add: f_ge_def f_le_def)

lemma parseFloatToken_infs:
  "parseFloatToken ''-inf'' = Inr NegInf" "parseFloatToken ''+inf'' = Inr PosInf"
  by code_simp+

text \<open>
  C5: on a sorted set at the key k, \<open>ZRANGE k -inf +inf\<close> replies with exactly the members
  of the set, each once, by score ascending and, among members of one score, by value in
  lexicographic order ascending. The set holds no NaN score (a NaN is refused where the
  command is read) and hands out its members in its own order; the handler then sorts
  them by score with \<open>slices.SortFunc\<close> of Go's library, which is taken by what it does
  to a slice that is in order already: it returns it as it is.
\<close>

theorem zrange_full_score_range:
  assumes "zrangeKeyCount zx [w, k, lo, hi] = Inr keys" and "ReadKeys keys = k # others"
    and "st k = Some (ZSetVal ms)"
    and "ParseFloat zx lo = Inr NegInf" and "ParseFloat zx hi = Inr PosInf"
    and "\<forall>m \<in> set ms. Score m \<noteq> NaN"
    and "\<And>xs. sorted_wrt (\<lambda>a b. cmp_Compare (Score a) (Score b) \<le> 0) xs
           \<Longrightarrow> SortFunc zx (\<lambda>a b. cmp_Compare (Score a) (Score b)) xs = xs"
  shows "handleZRANGE zx [w, k, lo, hi] st = Inr (zrangeReply zx False (GetAll ms), st)
       \<and> mset (GetAll ms) = mset ms
       \<and> sorted_wrt (\<lambda>a b. f_lt (Score a) (Score b)
                         \<or> (Score a = Score b \<and> lexCompare (Value a) (Value b) \<le> 0)) (GetAll ms)"
proof -
  let ?out = "GetAll ms"
  have nan: "Score m \<noteq> NaN" if "m \<in> set ?out" for m
    using that assms(6) by (simp add: set_GetAll)
  have ordered: "sorted_wrt (\<lambda>a b. \<not> memberLess b a) ?out"
    using assms(6) by (rule sorted_GetAll)
  have "sorted_wrt (\<lambda>a b. cmp_Compare (Score a) (Score b) \<le> 0) ?out"
    using ordered
  proof (rule sorted_wrt_mono_rel [rotated])
    fix a b
    assume "a \<in> set ?out" and "b \<in> set ?out" and "\<not> memberLess b a"
    then show "cmp_Compare (Score a) (Score b) \<le> 0"
      using nan by (intro not_memberLess_cmp)
  qed
  then have srt: "SortFunc zx (\<lambda>a b. cmp_Compare (Score a) (Score b)) ?out = ?out"
    by (rule assms(7))
  have keep: "filter (\<lambda>m. f_ge (Score m) NegInf \<and> f_le (Score m) PosInf) ?out = ?out"
    using nan by (intro filter_True) (simp add: full_range)
  have by_score_and_value:
    "sorted_wrt (\<lambda>a b. f_lt (Score a) (Score b)
                      \<or> (Score a = Score b \<and> lexCompare (Value a) (Value b) \<le> 0)) ?out"
    using ordered
  proof (rule sorted_wrt_mono_rel [rotated])
    fix a b
    assume "a \<in> set ?out" and "b \<in> set ?out" and "\<not> memberLess b a"
    then show "f_lt (Score a) (Score b) \<or> (Score a = Score b \<and> lexCompare (Value a) (Value b) \<le> 0)"
      using nan not_memberLess_iff [of a b] by simp
  qed
  have "handleZRANGE zx [w, k, lo, hi] st = Inr (zrangeReply zx False ?out, st)"
    using assms(1-5) srt keep
    by (simp add: handleZRANGE_def zrangeLimit_def KeyExists_def GetValue_def Cardinality_def
        length_GetAll Let_def)
  with mset_GetAll [of ms] by_score_and_value show ?thesis by (intro conjI)
qed

text \<open>
  C5 at work on the set that was given b and a with the score 1 and c with the score 0:
  the reply lists c, then a, then b.
\<close>

theorem zrange_full_score_range_witness:
  "handleZRANGE zx0 [''zrange'', ''k'', ''-inf'', ''+inf'']
       [''k'' \<mapsto> ZSetVal [\<lparr>Value = ''b'', Score = Fin 1\<rparr>, \<lparr>Value = ''a'', Score = Fin 1\<rparr>,
                          \<lparr>Value = ''c'', Score = Fin 0\<rparr>]]
     = Inr (''*3'' @ CRLF @ ''*1'' @ CRLF @ ''$1'' @ CRLF @ ''c'' @ CRLF @ ''*1'' @ CRLF @ ''$1'' @ CRLF @ ''a''
            @ CRLF @ ''*1'' @ CRLF @ ''$1'' @ CRLF @ ''b'' @ CRLF,
       [''k'' \<mapsto> ZSetVal [\<lparr>Value = ''b'', Score = Fin 1\<rparr>, \<lparr>Value = ''a'', Score = Fin 1\<rparr>,
                          \<lparr>Value = ''c'', Score = Fin 0\<rparr>]])"
proof -
  let ?ms = "[\<lparr>Value = ''b'', Score = Fin 1\<rparr>, \<lparr>Value = ''a'', Score = Fin 1\<rparr>,
              \<lparr>Value = ''c'', Score = Fin 0\<rparr>]"
  let ?st = "[''k'' \<mapsto> ZSetVal ?ms]"
  have all: "GetAll ?ms = [\<lparr>Value = ''c'', Score = Fin 0\<rparr>, \<lparr>Value = ''a'', Score = Fin 1\<rparr>,
                           \<lparr>Value = ''b'', Score = Fin 1\<rparr>]"
    by (simp add: GetAll_def sortMembers_def memberLess_def)
  have kf: "zrangeKeyCount zx0 [''zrange'', ''k'', ''-inf'', ''+inf'']
              = Inr \<lparr>Channels = [], ReadKeys = [''k''], WriteKeys = []\<rparr>"
    by (simp add: keyAt1_def)
  have rk: "ReadKeys \<lparr>Channels = [], ReadKeys = [''k''], WriteKeys = []\<rparr> = ''k'' # []" by simp
  have k: "?st ''k'' = Some (ZSetVal ?ms)" by simp
  have lo: "ParseFloat zx0 ''-inf'' = Inr NegInf" and hi: "ParseFloat zx0 ''+inf'' = Inr PosInf"
    by (simp_all add: parseFloatToken_infs)
  have nan: "\<forall>m \<in> set ?ms. Score m \<noteq> NaN" by simp
  have srt: "SortFunc zx0 (\<lambda>a b. cmp_Compare (Score a) (Score b)) xs = xs"
    if "sorted_wrt (\<lambda>a b. cmp_Compare (Score a) (Score b) \<le> 0) xs" for xs :: "MemberParam list"
    using that by (simp add: insertionSortCmpFunc_ordered cmp_Compare_antisym)
  note T = zrange_full_score_range [where st = ?st and k = "''k''", OF kf rk k lo hi nan srt]
  show ?thesis
    using T [THEN conjunct1] unfolding all
    by (simp add: zrangeReply_def zrangeMember_def itoa_evals)
qed

subsection \<open>Removing the last element of a sorted set or a hash\<close>

lemma zremLoop_fst:
  "fst (zremLoop zs ms c) = filter (\<lambda>m. Value m \<notin> set ms) zs"
  by (induction ms arbitrary: zs c) (auto simp add: Remove_def intro: filter_cong)

lemma removeEach_filter:
  "removeEach zs hit = filter (\<lambda>m. Value m \<notin> Value ` set hit) zs"
  by (induction hit arbitrary: zs) (auto simp add: Remove_def intro: filter_cong)

lemma removeEach_all: "removeEach zs (GetAll zs) = []"
  by (simp add: removeEach_filter set_GetAll)

lemma filter_GetAll: "\<forall>m \<in> set ms. P m \<Longrightarrow> filter P (GetAll ms) = GetAll ms"
  by (intro filter_True) (simp add: set_GetAll)

lemma scoresDiffer_iff:
  "scoresDiffer ms (int (length ms) - 1)
     = (\<exists>i. Suc i < length ms \<and> f_ne (Score (ms ! i)) (Score (ms ! Suc i)))"
proof -
  have "(i < nat (int (length ms) - 1)) = (Suc i < length ms)" for i
    by linarith
  then show ?thesis
    by (simp add: scoresDiffer_def list_ex_iff Bex_def)
qed

lemma one_score:
  assumes "\<not> scoresDiffer ms (int (length ms) - 1)" and "j < length ms"
  shows "Score (ms ! j) = Score (ms ! 0)"
  using assms(2)
proof (induction j)
  case 0
  then show ?case by simp
next
  case (Suc j)
  have "\<forall>i. Suc i < length ms \<longrightarrow> \<not> f_ne (Score (ms ! i)) (Score (ms ! Suc i))"
    using assms(1) by (simp add: scoresDiffer_iff)
  then have "\<not> f_ne (Score (ms ! j)) (Score (ms ! Suc j))"
    using Suc.prems by blast
  then have "Score (ms ! Suc j) = Score (ms ! j)"
    by (simp add: f_ne_def)
  moreover have "Score (ms ! j) = Score (ms ! 0)"
    using Suc by simp
  ultimately show ?case by (rule trans)
qed

lemma scoresDiffer_GetAll:
  assumes "\<not> scoresDiffer ms (int (length ms) - 1)"
  shows "\<not> scoresDiffer (GetAll ms) (int (length (GetAll ms)) - 1)"
proof
  assume "scoresDiffer (GetAll ms) (int (length (GetAll ms)) - 1)"
  then have "\<exists>i. Suc i < length (GetAll ms)
               \<and> f_ne (Score (GetAll ms ! i)) (Score (GetAll ms ! Suc i))"
    by (simp only: scoresDiffer_iff)
  then obtain i where i: "Suc i < length ms"
    and ne: "f_ne (Score (GetAll ms ! i)) (Score (GetAll ms ! Suc i))"
    by (auto simp add: length_GetAll)
  have same: "Score m = Score (ms ! 0)" if "m \<in> set ms" for m
    using that one_score [OF assms] by (auto simp add: in_set_conv_nth)
  have "\<not> f_ne (Score (ms ! 0)) (Score (ms ! Suc 0))"
    using assms i by (simp add: scoresDiffer_iff)
  then have "Score (ms ! 0) \<noteq> NaN" by (auto simp add: f_ne_def)
  moreover have "GetAll ms ! i \<in> set ms" and "GetAll ms ! Suc i \<in> set ms"
    using i nth_mem [of i "GetAll ms"] nth_mem [of "Suc i" "GetAll ms"]
    by (simp_all add: length_GetAll set_GetAll)
  ultimately show False using ne same by (simp add: f_ne_def)
qed

lemma hdelLoop_fst:
  "fst (hdelLoop h fs c) = (\<lambda>f. if f \<in> set fs then None else h f)"
  by (induction fs arbitrary: h c) (auto simp add: fun_eq_iff)

lemma dom_upd_same: "st key = Some v \<Longrightarrow> dom (st(key \<mapsto> v')) = dom st"
  by auto

lemma handleZREM_dom: "handleZREM zx cmd st = Inr (r, st') \<Longrightarrow> dom st' = dom st"
  by (auto simp add: handleZREM_def KeyExists_def GetValue_def
      split: sum.splits list.splits option.splits val.splits if_splits prod.splits)

lemma handleZREMRANGEBYSCORE_dom:
  "handleZREMRANGEBYSCORE zx cmd st = Inr (r, st') \<Longrightarrow> dom st' = dom st"
  by (auto simp add: handleZREMRANGEBYSCORE_def KeyExists_def GetValue_def Let_def
      split: sum.splits list.splits option.splits val.splits if_splits)

lemma handleZREMRANGEBYLEX_dom:
  "handleZREMRANGEBYLEX zx cmd st = Inr (r, st') \<Longrightarrow> dom st' = dom st"
  by (auto simp add: handleZREMRANGEBYLEX_def KeyExists_def GetValue_def Let_def
      split: sum.splits list.splits option.splits val.splits if_splits)

lemma handleHDEL_dom: "handleHDEL zx cmd st = Inr (r, st') \<Longrightarrow> dom st' = dom st"
  by (auto simp add: handleHDEL_def KeyExists_def GetValue_def SetValue_def Let_def
      split: sum.splits list.splits option.splits val.splits if_splits prod.splits)

lemma ToLower_1: "ToLower ''1'' = ''1''"
  by code_simp

lemma parseFloatToken_1: "parseFloatToken ''1'' = Inr (Fin 1)"
  by (simp add: parseFloatToken_def adaptToken_ints ToLower_1)

text \<open>
  C8: \<open>ZREM\<close>, \<open>ZREMRANGEBYSCORE\<close>, \<open>ZREMRANGEBYLEX\<close> and \<open>HDEL\<close> never delete the key they
  work on. When the command removes every member of the sorted set at its key (every
  field of the hash), the key stays and holds the empty sorted set (the empty hash); and
  whenever one of the four handlers replies, the keys of the keyspace are those from
  before the command.
\<close>

theorem removal_keeps_key:
  assumes "WriteKeys keys = key # others"
  shows "(zremKeyFunc zx cmd = Inr keys \<and> st key = Some (ZSetVal ms) \<and> 2 \<le> length cmd
            \<and> (\<forall>m \<in> set ms. Value m \<in> set (drop 2 cmd))
          \<longrightarrow> storeOf (handleZREM zx cmd st) = Some (st(key \<mapsto> ZSetVal [])))
       \<and> (zremrangebyscoreKeyFunc zx cmd = Inr keys \<and> st key = Some (ZSetVal ms) \<and> 4 \<le> length cmd
            \<and> ParseFloat zx (cmd ! 2) = Inr lo \<and> ParseFloat zx (cmd ! 3) = Inr hi
            \<and> (\<forall>m \<in> set ms. f_ge (Score m) lo \<and> f_le (Score m) hi)
          \<longrightarrow> storeOf (handleZREMRANGEBYSCORE zx cmd st) = Some (st(key \<mapsto> ZSetVal [])))
       \<and> (zremrangebylexKeyFunc zx cmd = Inr keys \<and> st key = Some (ZSetVal ms) \<and> 4 \<le> length cmd
            \<and> \<not> scoresDiffer ms (int (length ms) - 1)
            \<and> (\<forall>m \<in> set ms. inLexRange zx (cmd ! 2) (cmd ! 3) m)
          \<longrightarrow> storeOf (handleZREMRANGEBYLEX zx cmd st) = Some (st(key \<mapsto> ZSetVal [])))
       \<and> (hdelKeyFunc zx cmd = Inr keys \<and> st key = Some (HashVal h) \<and> 2 \<le> length cmd
            \<and> dom h \<subseteq> set (drop 2 cmd)
          \<longrightarrow> storeOf (handleHDEL zx cmd st) = Some (st(key \<mapsto> HashVal Map.empty)))
       \<and> (handleZREM zx cmd st = Inr (r, st') \<or> handleZREMRANGEBYSCORE zx cmd st = Inr (r, st')
            \<or> handleZREMRANGEBYLEX zx cmd st = Inr (r, st') \<or> handleHDEL zx cmd st = Inr (r, st')
          \<longrightarrow> dom st' = dom st)"
proof (intro conjI impI)
  assume h: "zremKeyFunc zx cmd = Inr keys \<and> st key = Some (ZSetVal ms) \<and> 2 \<le> length cmd
            \<and> (\<forall>m \<in> set ms. Value m \<in> set (drop 2 cmd))"
  then have "fst (zremLoop ms (drop 2 cmd) 0) = []"
    by (simp add: zremLoop_fst)
  then obtain n where "zremLoop ms (drop 2 cmd) 0 = ([], n)"
    by (cases "zremLoop ms (drop 2 cmd) 0") simp
  then show "storeOf (handleZREM zx cmd st) = Some (st(key \<mapsto> ZSetVal []))"
    using h assms by (simp add: handleZREM_def storeOf_def KeyExists_def GetValue_def)
next
  assume h: "zremrangebyscoreKeyFunc zx cmd = Inr keys \<and> st key = Some (ZSetVal ms) \<and> 4 \<le> length cmd
            \<and> ParseFloat zx (cmd ! 2) = Inr lo \<and> ParseFloat zx (cmd ! 3) = Inr hi
            \<and> (\<forall>m \<in> set ms. f_ge (Score m) lo \<and> f_le (Score m) hi)"
  then have "filter (\<lambda>m. f_ge (Score m) lo \<and> f_le (Score m) hi) (GetAll ms) = GetAll ms"
    by (intro filter_GetAll) simp
  then show "storeOf (handleZREMRANGEBYSCORE zx cmd st) = Some (st(key \<mapsto> ZSetVal []))"
    using h assms
    by (simp add: handleZREMRANGEBYSCORE_def storeOf_def KeyExists_def GetValue_def
        removeEach_all)
next
  assume h: "zremrangebylexKeyFunc zx cmd = Inr keys \<and> st key = Some (ZSetVal ms) \<and> 4 \<le> length cmd
            \<and> \<not> scoresDiffer ms (int (length ms) - 1)
            \<and> (\<forall>m \<in> set ms. inLexRange zx (cmd ! 2) (cmd ! 3) m)"
  then have "filter (inLexRange zx (cmd ! 2) (cmd ! 3)) (GetAll ms) = GetAll ms"
    by (intro filter_GetAll) simp
  moreover have "\<not> scoresDiffer (GetAll ms) (int (length (GetAll ms)) - 1)"
    using h by (intro scoresDiffer_GetAll) simp
  ultimately show "storeOf (handleZREMRANGEBYLEX zx cmd st) = Some (st(key \<mapsto> ZSetVal []))"
    using h assms
    by (simp add: handleZREMRANGEBYLEX_def storeOf_def KeyExists_def GetValue_def
        removeEach_all)
next
  assume h: "hdelKeyFunc zx cmd = Inr keys \<and> st key = Some (HashVal h) \<and> 2 \<le> length cmd
            \<and> dom h \<subseteq> set (drop 2 cmd)"
  then have "\<And>f. f \<notin> set (drop 2 cmd) \<Longrightarrow> h f = None"
    by (meson domIff subsetD)
  then have "fst (hdelLoop h (drop 2 cmd) 0) = Map.empty"
    unfolding hdelLoop_fst by (intro ext) simp
  then obtain n where "hdelLoop h (drop 2 cmd) 0 = (Map.empty, n)"
    by (cases "hdelLoop h (drop 2 cmd) 0") simp
  then show "storeOf (handleHDEL zx cmd st) = Some (st(key \<mapsto> HashVal Map.empty))"
    using h assms
    by (simp add: handleHDEL_def storeOf_def KeyExists_def GetValue_def SetValue_def)
next
  assume "handleZREM zx cmd st = Inr (r, st') \<or> handleZREMRANGEBYSCORE zx cmd st = Inr (r, st')
            \<or> handleZREMRANGEBYLEX zx cmd st = Inr (r, st') \<or> handleHDEL zx cmd st = Inr (r, st')"
  then show "dom st' = dom st"
  proof (elim disjE)
    assume "handleZREM zx cmd st = Inr (r, st')"
    then show ?thesis by (rule handleZREM_dom)
  next
    assume "handleZREMRANGEBYSCORE zx cmd st = Inr (r, st')"
    then show ?thesis by (rule handleZREMRANGEBYSCORE_dom)
  next
    assume "handleZREMRANGEBYLEX zx cmd st = Inr (r, st')"
    then show ?thesis by (rule handleZREMRANGEBYLEX_dom)
  next
    assume "handleHDEL zx cmd st = Inr (r, st')"
    then show ?thesis by (rule handleHDEL_dom)
  qed
qed

text \<open>
  C8 at work: each of the four commands removes the only element of the collection at k,
  and k holds the empty collection afterwards.
\<close>

theorem removal_keeps_key_witness:
  "storeOf (handleZREM zx0 [''zrem'', ''k'', ''a''] [''k'' \<mapsto> ZSetVal [\<lparr>Value = ''a'', Score = Fin 1\<rparr>]])
     = Some [''k'' \<mapsto> ZSetVal []]
   \<and> storeOf (handleZREMRANGEBYSCORE zx0 [''zremrangebyscore'', ''k'', ''1'', ''1'']
               [''k'' \<mapsto> ZSetVal [\<lparr>Value = ''a'', Score = Fin 1\<rparr>]])
     = Some [''k'' \<mapsto> ZSetVal []]
   \<and> storeOf (handleZREMRANGEBYLEX zx0 [''zremrangebylex'', ''k'', ''a'', ''a'']
               [''k'' \<mapsto> ZSetVal [\<lparr>Value = ''a'', Score = Fin 1\<rparr>]])
     = Some [''k'' \<mapsto> ZSetVal []]
   \<and> storeOf (handleHDEL zx0 [''hdel'', ''k'', ''f''] [''k'' \<mapsto> HashVal [''f'' \<mapsto> StrV ''v'']])
     = Some [''k'' \<mapsto> HashVal Map.empty]
   \<and> dom [''k'' \<mapsto> ZSetVal []] = dom [''k'' \<mapsto> ZSetVal [\<lparr>Value = ''a'', Score = Fin 1\<rparr>]]"
proof -
  let ?ks = "\<lparr>Channels = [], ReadKeys = [], WriteKeys = [''k'']\<rparr>"
  let ?zs = "[\<lparr>Value = ''a'', Score = Fin 1\<rparr>]"
  let ?st = "[''k'' \<mapsto> ZSetVal ?zs]"
  let ?hs = "[''k'' \<mapsto> HashVal [''f'' \<mapsto> StrV ''v'']]"
  have wk: "WriteKeys ?ks = ''k'' # []" by simp
  note T = removal_keeps_key [where keys = ?ks and key = "''k''" and others = "[]" and zx = zx0, OF wk]
  have 1: "storeOf (handleZREM zx0 [''zrem'', ''k'', ''a''] ?st) = Some [''k'' \<mapsto> ZSetVal []]"
    using T [where cmd = "[''zrem'', ''k'', ''a'']" and st = ?st and ms = ?zs, THEN conjunct1]
    by (simp add: keyAt1_def)
  have 2: "storeOf (handleZREMRANGEBYSCORE zx0 [''zremrangebyscore'', ''k'', ''1'', ''1''] ?st)
             = Some [''k'' \<mapsto> ZSetVal []]"
    using T [where cmd = "[''zremrangebyscore'', ''k'', ''1'', ''1'']" and st = ?st and ms = ?zs
        and lo = "Fin 1" and hi = "Fin 1", THEN conjunct2, THEN conjunct1]
    by (simp add: keyAt1_def parseFloatToken_1 f_ge_def f_le_def)
  have 3: "storeOf (handleZREMRANGEBYLEX zx0 [''zremrangebylex'', ''k'', ''a'', ''a''] ?st)
             = Some [''k'' \<mapsto> ZSetVal []]"
    using T [where cmd = "[''zremrangebylex'', ''k'', ''a'', ''a'']" and st = ?st and ms = ?zs,
        THEN conjunct2, THEN conjunct2, THEN conjunct1]
    by (simp add: keyAt1_def scoresDiffer_def inLexRange_def)
  have 4: "storeOf (handleHDEL zx0 [''hdel'', ''k'', ''f''] ?hs) = Some [''k'' \<mapsto> HashVal Map.empty]"
    using T [where cmd = "[''hdel'', ''k'', ''f'']" and st = ?hs and h = "[''f'' \<mapsto> StrV ''v'']",
        THEN conjunct2, THEN conjunct2, THEN conjunct2, THEN conjunct1]
    by (simp add: keyAt1_def)
  have run: "handleZREM zx0 [''zrem'', ''k'', ''a''] ?st = Inr ('':1'' @ CRLF, [''k'' \<mapsto> ZSetVal []])"
    by (simp add: handleZREM_def keyAt1_def KeyExists_def GetValue_def Remove_def itoa_evals)
  have 5: "dom [''k'' \<mapsto> ZSetVal []] = dom ?st"
    using T [where cmd = "[''zrem'', ''k'', ''a'']" and st = ?st and r = "'':1'' @ CRLF"
        and st' = "[''k'' \<mapsto> ZSetVal []]",
        THEN conjunct2, THEN conjunct2, THEN conjunct2, THEN conjunct2] run
    by blast
  from 1 2 3 4 5 show ?thesis by (intro conjI)
qed

end
